theory Spec2Isabelle
  imports Main "HOL-Library.Word" "HOL-Library.Signed_Division"
begin

section \<open>Weight-only quantized matmul: the dispatch and validation layer\<close>

text \<open>
  A shallow embedding of \<^verbatim>\<open>csrc/quant_matmul.cpp\<close>: the two exported operations
  \<^verbatim>\<open>preprocess_weight\<close> and \<^verbatim>\<open>quant_matmul\<close>, with the helper templates
  \<^verbatim>\<open>gemm_fp16_int_bias\<close> and \<^verbatim>\<open>dispatch_to_weight_only_batched_gemv\<close>.
  Tensors are metadata plus the index of a buffer in an explicit heap; every
  \<^verbatim>\<open>TORCH_CHECK\<close> is a branch returning an error value; allocation and kernel
  launches are updates of an explicit world state. The arithmetic of the kernels is
  outside the file and is not modelled: a launch is recorded with its arguments.
\<close>

subsection \<open>Machine integers\<close>

text \<open>
  Tensor sizes are \<^verbatim>\<open>int64_t\<close> and never negative; the code stores them in \<^verbatim>\<open>int\<close>
  variables (\<^verbatim>\<open>const int m = input.size(0)\<close>), which keeps the low 32 bits, read as
  two's complement. C++ division and remainder truncate towards zero (\<open>sdiv\<close>,
  \<open>smod\<close>); division by zero and \<^verbatim>\<open>INT_MIN % -1\<close> are undefined behaviour (a
  \<^verbatim>\<open>SIGFPE\<close> trap on x86-64) and are failures of the call in the model.
\<close>

definition int32 :: "int \<Rightarrow> int" where
  "int32 x = signed_take_bit 31 x"

definition char_cast :: "int \<Rightarrow> int" where
  "char_cast x = signed_take_bit 7 x"

subsection \<open>Errors\<close>

text \<open>
  \<^verbatim>\<open>TORCH_CHECK(cond)\<close> throws \<^verbatim>\<open>c10::Error\<close> with the message
  "Expected cond to be true, but got false."; \<open>TorchCheck\<close> carries the text of the
  condition (for \<^verbatim>\<open>CHECK_SHAPE\<close>, the message the macro builds). The source has this
  one exception type at every check; the text tells the checks apart.
  \<^verbatim>\<open>Tensor::size(d)\<close> throws \<^verbatim>\<open>c10::IndexError\<close> when \<open>d\<close> is not a dimension.
\<close>

datatype error =
    TorchCheck string
  | IndexError
  | DivisionByZero
  | SignedOverflow

definition and_then :: "error + 'a \<Rightarrow> ('a \<Rightarrow> error + 'b) \<Rightarrow> error + 'b" where
  "and_then r f = (case r of Inl e \<Rightarrow> Inl e | Inr x \<Rightarrow> f x)"

definition TORCH_CHECK :: "bool \<Rightarrow> string \<Rightarrow> error + unit" where
  "TORCH_CHECK cond msg = (if cond then Inr () else Inl (TorchCheck msg))"

text \<open>A run of consecutive \<^verbatim>\<open>TORCH_CHECK\<close> statements: the first false one throws.\<close>

fun TORCH_CHECKS :: "(bool \<times> string) list \<Rightarrow> error + unit" where
  "TORCH_CHECKS [] = Inr ()"
| "TORCH_CHECKS ((cond, msg) # rest) =
     (if cond then TORCH_CHECKS rest else Inl (TorchCheck msg))"

text \<open>\<^verbatim>\<open>k / weight_scales.size(0)\<close>: an \<^verbatim>\<open>int64_t\<close> division.\<close>

definition int64_div :: "int \<Rightarrow> int \<Rightarrow> error + int" where
  "int64_div a b =
     (if b = 0 then Inl DivisionByZero
      else if a = - (2 ^ 63) \<and> b = - 1 then Inl SignedOverflow
      else Inr (a sdiv b))"

text \<open>\<^verbatim>\<open>quantized_weight.size(1) * elts_per_byte\<close>: an \<^verbatim>\<open>int64_t\<close> product.\<close>

definition int64_mul :: "int \<Rightarrow> int \<Rightarrow> error + int" where
  "int64_mul a b =
     (if - (2 ^ 63) \<le> a * b \<and> a * b < 2 ^ 63 then Inr (a * b) else Inl SignedOverflow)"

text \<open>\<^verbatim>\<open>k % group_size\<close>: an \<^verbatim>\<open>int\<close> remainder.\<close>

definition int_mod :: "int \<Rightarrow> int \<Rightarrow> error + int" where
  "int_mod a b =
     (if b = 0 then Inl DivisionByZero
      else if a = - (2 ^ 31) \<and> b = - 1 then Inl SignedOverflow
      else Inr (a smod b))"

subsection \<open>Tensors, buffers and the world\<close>

datatype ScalarType = kUInt8 | kInt8 | kInt32 | kInt64 | kFloat16 | kBFloat16 | kFloat32

fun elementSize :: "ScalarType \<Rightarrow> nat" where
  "elementSize kUInt8 = 1"
| "elementSize kInt8 = 1"
| "elementSize kInt32 = 4"
| "elementSize kInt64 = 8"
| "elementSize kFloat16 = 2"
| "elementSize kBFloat16 = 2"
| "elementSize kFloat32 = 4"

datatype Device = CPU | CUDA nat

record TensorOptions =
  opt_dtype :: ScalarType
  opt_device :: Device

text \<open>
  \<open>data_ptr\<close> is the index of the tensor's buffer in the heap; \<open>is_contiguous\<close>
  stands for the stride test of \<^verbatim>\<open>Tensor::is_contiguous()\<close>.
\<close>

record Tensor =
  sizes :: "nat list"
  dtype :: ScalarType
  device :: Device
  is_contiguous :: bool
  data_ptr :: nat

definition dim :: "Tensor \<Rightarrow> nat" where
  "dim t = length (sizes t)"

definition size_dim :: "Tensor \<Rightarrow> nat \<Rightarrow> error + int" where
  "size_dim t d = (if d < dim t then Inr (int (sizes t ! d)) else Inl IndexError)"

definition is_cuda :: "Tensor \<Rightarrow> bool" where
  "is_cuda t = (case device t of CUDA i \<Rightarrow> True | CPU \<Rightarrow> False)"

definition is_cpu :: "Tensor \<Rightarrow> bool" where
  "is_cpu t = (case device t of CUDA i \<Rightarrow> False | CPU \<Rightarrow> True)"

definition get_device :: "Tensor \<Rightarrow> int" where
  "get_device t = (case device t of CUDA i \<Rightarrow> int i | CPU \<Rightarrow> - 1)"

definition options :: "Tensor \<Rightarrow> TensorOptions" where
  "options t = \<lparr>opt_dtype = dtype t, opt_device = device t\<rparr>"

text \<open>\<^verbatim>\<open>CHECK_SHAPE(x, ...)\<close> compares \<^verbatim>\<open>x.sizes()\<close> with the listed \<^verbatim>\<open>int\<close>s, widened to \<^verbatim>\<open>int64_t\<close>.\<close>

definition has_shape :: "Tensor \<Rightarrow> int list \<Rightarrow> bool" where
  "has_shape x shape = (map int (sizes x) = shape)"

text \<open>
  A buffer: where it lives, its size in bytes, and its bytes when they are known
  (\<open>None\<close>: uninitialised memory, as \<^verbatim>\<open>at::empty\<close> returns it, or contents the model
  does not follow).
\<close>

record buffer =
  buf_device :: Device
  buf_nbytes :: nat
  buf_contents :: "8 word list option"

datatype WeightType = uint4b_t | uint8_t

datatype WeightOnlyQuantOp = PER_COLUMN_SCALE_ONLY | FINEGRAINED_SCALE_ONLY

datatype WeightOnlyQuantType = Int4b | Int8b

datatype WeightOnlyType = PerChannel | GroupWise

datatype WeightOnlyActivationFunctionType = Identity

datatype WeightOnlyActivationType = FP16

datatype QuantType = PACKED_INT4_WEIGHT_ONLY | INT8_WEIGHT_ONLY

text \<open>Pointers are heap indices; \<open>None\<close> is \<^verbatim>\<open>nullptr\<close>.\<close>

record WeightOnlyParams =
  wo_qweight :: nat
  wo_scales :: nat
  wo_zeros :: "nat option"
  wo_in :: nat
  wo_act_scale :: "nat option"
  wo_bias :: "nat option"
  wo_out :: nat
  wo_m :: int
  wo_n :: int
  wo_k :: int
  wo_group_size :: int
  wo_quant_type :: WeightOnlyQuantType
  wo_weight_only_type :: WeightOnlyType
  wo_act_func_type :: WeightOnlyActivationFunctionType
  wo_act_type :: WeightOnlyActivationType

text \<open>
  The arguments of \<^verbatim>\<open>CutlassFpAIntBGemmRunner<half, WeightType, QuantOp>::gemm_bias\<close>,
  with the two template arguments of the runner.
\<close>

record GemmBiasArgs =
  gb_weight_type :: WeightType
  gb_quant_op :: WeightOnlyQuantOp
  gb_A :: nat
  gb_B :: nat
  gb_weight_scales :: nat
  gb_weight_zero_points :: "nat option"
  gb_biases :: "nat option"
  gb_C :: nat
  gb_m :: int
  gb_n :: int
  gb_k :: int
  gb_group_size :: int
  gb_workspace_ptr :: "nat option"
  gb_workspace_bytes :: nat

datatype kernel_launch =
    weight_only_batched_gemv_launcher WeightOnlyParams
  | gemm_bias GemmBiasArgs

text \<open>
  The world: the buffers allocated so far, the current CUDA device, and the kernels
  launched so far, each with the device that was current at the launch.
\<close>

record world =
  heap :: "buffer list"
  current_device :: int
  launched :: "(int \<times> kernel_launch) list"

text \<open>
  \<^verbatim>\<open>at::empty(shape, opts)\<close>: a fresh contiguous tensor on a new buffer of
  uninitialised memory. A negative dimension is refused by the library. Running out of
  memory is not modelled.
\<close>

definition at_empty :: "int list \<Rightarrow> TensorOptions \<Rightarrow> world \<Rightarrow> (error + Tensor) \<times> world" where
  "at_empty shape opts w =
     (if list_ex (\<lambda>d. d < 0) shape
      then (Inl (TorchCheck ''Trying to create tensor with negative dimension''), w)
      else (Inr \<lparr>sizes = map nat shape, dtype = opt_dtype opts, device = opt_device opts,
                 is_contiguous = True, data_ptr = length (heap w)\<rparr>,
            w\<lparr>heap := heap w @
                 [\<lparr>buf_device = opt_device opts,
                   buf_nbytes = prod_list (map nat shape) * elementSize (opt_dtype opts),
                   buf_contents = None\<rparr>]\<rparr>))"

subsection \<open>Kernel dispatch\<close>

text \<open>
  \<^verbatim>\<open>dispatch_to_weight_only_batched_gemv<WeightType, QuantOp>\<close> (lines 27-63): fills
  \<^verbatim>\<open>WeightOnlyParams\<close> and calls \<^verbatim>\<open>weight_only_batched_gemv_launcher\<close>.
\<close>

definition dispatch_to_weight_only_batched_gemv ::
  "WeightType \<Rightarrow> WeightOnlyQuantOp \<Rightarrow> nat \<Rightarrow> nat \<Rightarrow> nat \<Rightarrow> nat option \<Rightarrow> nat \<Rightarrow>
   int \<Rightarrow> int \<Rightarrow> int \<Rightarrow> int \<Rightarrow> world \<Rightarrow> world" where
  "dispatch_to_weight_only_batched_gemv WT QuantOp A B weight_scales bias C m n k group_size w =
     (let weight_only_quant_type = (if WT = uint4b_t then Int4b else Int8b);
          weight_only_type = (if QuantOp = PER_COLUMN_SCALE_ONLY then PerChannel else GroupWise);
          params = \<lparr>wo_qweight = B, wo_scales = weight_scales, wo_zeros = None, wo_in = A,
                    wo_act_scale = None, wo_bias = bias, wo_out = C,
                    wo_m = m, wo_n = n, wo_k = k, wo_group_size = group_size,
                    wo_quant_type = weight_only_quant_type,
                    wo_weight_only_type = weight_only_type,
                    wo_act_func_type = Identity, wo_act_type = FP16\<rparr>
      in w\<lparr>launched := launched w @
              [(current_device w, weight_only_batched_gemv_launcher params)]\<rparr>)"

text \<open>\<^verbatim>\<open>gemm_fp16_int_bias<WeightType, QuantOp>\<close> (lines 65-78).\<close>

definition gemm_fp16_int_bias ::
  "WeightType \<Rightarrow> WeightOnlyQuantOp \<Rightarrow> nat \<Rightarrow> nat \<Rightarrow> nat \<Rightarrow> nat option \<Rightarrow> nat \<Rightarrow>
   int \<Rightarrow> int \<Rightarrow> int \<Rightarrow> int \<Rightarrow> nat option \<Rightarrow> nat \<Rightarrow> world \<Rightarrow> world" where
  "gemm_fp16_int_bias WT QuantOp A B weight_scales bias C m n k group_size
       workspace_ptr workspace_bytes w =
     (if m \<le> 4
      then dispatch_to_weight_only_batched_gemv WT QuantOp A B weight_scales bias C m n k
             group_size w
      else w\<lparr>launched := launched w @
               [(current_device w,
                 gemm_bias \<lparr>gb_weight_type = WT, gb_quant_op = QuantOp, gb_A = A, gb_B = B,
                            gb_weight_scales = weight_scales, gb_weight_zero_points = None,
                            gb_biases = bias, gb_C = C, gb_m = m, gb_n = n, gb_k = k,
                            gb_group_size = group_size, gb_workspace_ptr = workspace_ptr,
                            gb_workspace_bytes = workspace_bytes\<rparr>)]\<rparr>)"

subsection \<open>\<^verbatim>\<open>preprocess_weight\<close> (lines 80-101)\<close>

text \<open>
  Modelled from the spec: \<^verbatim>\<open>preprocess_weights_for_mixed_gemm\<close> is declared in
  \<^verbatim>\<open>tensorrt_llm/kernels/cutlass_kernels/cutlass_preprocessors.h\<close>, which is not part
  of the source at hand. The spec (section 4.2) describes it as a deterministic, pure
  byte permutation that produces a new matrix and never works in place: it reads the
  bytes at its second pointer and writes the result to its first. The permutation
  itself is the parameter \<open>perm\<close>.
\<close>

definition preprocess_weights_for_mixed_gemm ::
  "(QuantType \<Rightarrow> nat list \<Rightarrow> 8 word list \<Rightarrow> 8 word list) \<Rightarrow>
   nat \<Rightarrow> nat \<Rightarrow> nat list \<Rightarrow> QuantType \<Rightarrow> world \<Rightarrow> world" where
  "preprocess_weights_for_mixed_gemm perm dst src shape qtype w =
     (if dst < length (heap w) \<and> src < length (heap w)
      then w\<lparr>heap := (heap w)[dst := (heap w ! dst)
                 \<lparr>buf_contents := map_option (perm qtype shape) (buf_contents (heap w ! src))\<rparr>]\<rparr>
      else w)"

text \<open>Lines 82-91: the checks, and the three \<^verbatim>\<open>int\<close>s the rest of the function uses.\<close>

definition preprocess_weight_checks :: "Tensor \<Rightarrow> int \<Rightarrow> int \<Rightarrow> error + (int \<times> int \<times> int)" where
  "preprocess_weight_checks quantized_weight bits arch =
     and_then (TORCH_CHECK (bits = 4 \<or> bits = 8) ''bits == 4 || bits == 8'') (\<lambda>_.
     and_then (TORCH_CHECK (arch \<ge> 70 \<and> arch < 90) ''arch >= 70 && arch < 90'') (\<lambda>_.
     and_then (size_dim quantized_weight 0) (\<lambda>size0.
     let rows = int32 size0;
         elts_per_byte = 8 sdiv bits in
     and_then (size_dim quantized_weight 1) (\<lambda>size1.
     and_then (int64_mul size1 elts_per_byte) (\<lambda>prod.
     let cols = int32 prod in
     and_then (TORCH_CHECKS
       [(dtype quantized_weight = kInt8, ''quantized_weight.dtype() == torch::kInt8''),
        (is_cpu quantized_weight, ''quantized_weight.is_cpu()''),
        (is_contiguous quantized_weight, ''quantized_weight.is_contiguous()''),
        (has_shape quantized_weight [rows, cols sdiv elts_per_byte],
           ''quantized_weight must have shape (rows, cols / elts_per_byte)'')]) (\<lambda>_.
     Inr (rows, cols, elts_per_byte)))))))"

definition preprocess_weight ::
  "(QuantType \<Rightarrow> nat list \<Rightarrow> 8 word list \<Rightarrow> 8 word list) \<Rightarrow>
   Tensor \<Rightarrow> int \<Rightarrow> int \<Rightarrow> world \<Rightarrow> (error + Tensor) \<times> world" where
  "preprocess_weight perm quantized_weight bits arch w =
     (case preprocess_weight_checks quantized_weight bits arch of
        Inl e \<Rightarrow> (Inl e, w)
      | Inr (rows, cols, elts_per_byte) \<Rightarrow>
          (case at_empty [cols, rows sdiv elts_per_byte] (options quantized_weight) w of
             (Inl e, w1) \<Rightarrow> (Inl e, w1)
           | (Inr out, w1) \<Rightarrow>
               (let qtype = (if bits = 4 then PACKED_INT4_WEIGHT_ONLY else INT8_WEIGHT_ONLY);
                    shape = [nat rows, nat cols]
                in (Inr out,
                    preprocess_weights_for_mixed_gemm perm (data_ptr out)
                      (data_ptr quantized_weight) shape qtype w1))))"

subsection \<open>\<^verbatim>\<open>quant_matmul\<close> (lines 103-173)\<close>

text \<open>
  Lines 106-139: everything before the device guard. The result is
  \<open>(m, n, k, is_finegrained, group_size)\<close>. The divisions \<^verbatim>\<open>8 / bits\<close>,
  \<^verbatim>\<open>k / (8 / bits)\<close> and \<^verbatim>\<open>n % 8\<close> have a non-zero divisor once line 106 has passed,
  and \<^verbatim>\<open>k / group_size\<close> on line 130 is reached only with \<open>group_size\<close> 64 or 128;
  \<^verbatim>\<open>k / weight_scales.size(0)\<close> and \<^verbatim>\<open>k % group_size\<close> have no such guard.
\<close>

definition quant_matmul_checks ::
  "Tensor \<Rightarrow> Tensor \<Rightarrow> Tensor \<Rightarrow> Tensor option \<Rightarrow> int \<Rightarrow>
   error + (int \<times> int \<times> int \<times> bool \<times> int)" where
  "quant_matmul_checks input weight weight_scales bias_opt bits =
     and_then (TORCH_CHECK (bits = 4 \<or> bits = 8) ''bits == 4 || bits == 8'') (\<lambda>_.
     and_then (size_dim input 0) (\<lambda>size0.
     and_then (size_dim input 1) (\<lambda>size1.
     and_then (size_dim weight 0) (\<lambda>wsize0.
     let m = int32 size0;
         k = int32 size1;
         n = int32 wsize0;
         is_finegrained = (dim weight_scales = 2) in
     and_then (if \<not> is_finegrained then Inr k
               else and_then (size_dim weight_scales 0) (\<lambda>ssize0.
                    and_then (int64_div k ssize0) (\<lambda>q. Inr (int32 q)))) (\<lambda>group_size.
     and_then (int_mod k group_size) (\<lambda>r.
     and_then (TORCH_CHECKS
       ([(r = 0, ''k % group_size == 0'')] @
        (if is_finegrained
         then [(group_size = 64 \<or> group_size = 128, ''group_size == 64 || group_size == 128'')]
         else []) @
        [(n smod 8 = 0, ''n % 8 == 0''),
         (dtype input = kFloat16, ''input.dtype() == torch::kFloat16''),
         (dtype weight = kInt8, ''weight.dtype() == torch::kInt8''),
         (dtype weight_scales = kFloat16, ''weight_scales.dtype() == torch::kFloat16''),
         (is_cuda input, ''input.is_cuda()''),
         (is_cuda weight, ''weight.is_cuda()''),
         (is_cuda weight_scales, ''weight_scales.is_cuda()''),
         (is_contiguous input, ''input.is_contiguous()''),
         (is_contiguous weight, ''weight.is_contiguous()''),
         (is_contiguous weight_scales, ''weight_scales.is_contiguous()''),
         (has_shape input [m, k], ''input must have shape (m, k)''),
         (has_shape weight [n, k sdiv (8 sdiv bits)],
            ''weight must have shape (n, k / (8 / bits))''),
         (if \<not> is_finegrained
          then (has_shape weight_scales [n], ''weight_scales must have shape (n)'')
          else (has_shape weight_scales [k sdiv group_size, n],
                  ''weight_scales must have shape (k / group_size, n)''))])) (\<lambda>_.
     and_then (case bias_opt of
                 None \<Rightarrow> Inr ()
               | Some bias \<Rightarrow> TORCH_CHECKS
                   [(dtype bias = kFloat16, ''bias.dtype() == torch::kFloat16''),
                    (is_cuda bias, ''bias.is_cuda()''),
                    (is_contiguous bias, ''bias.is_contiguous()''),
                    (has_shape bias [n], ''bias must have shape (n)'')]) (\<lambda>_.
     Inr (m, n, k, is_finegrained, group_size)))))))))"

text \<open>
  Lines 143-172: the device guard (released when the call returns), the output, the
  workspace, and the dispatch on \<open>bits\<close> and \<open>is_finegrained\<close> that the two nested
  \<^verbatim>\<open>BOOL_SWITCH\<close>es make.
\<close>

definition quant_matmul_launch ::
  "Tensor \<Rightarrow> Tensor \<Rightarrow> Tensor \<Rightarrow> Tensor option \<Rightarrow> int \<Rightarrow>
   int \<Rightarrow> int \<Rightarrow> int \<Rightarrow> bool \<Rightarrow> int \<Rightarrow> world \<Rightarrow> (error + Tensor) \<times> world" where
  "quant_matmul_launch input weight weight_scales bias_opt bits m n k is_finegrained group_size w =
     (let original_device = current_device w;
          w0 = w\<lparr>current_device := char_cast (get_device input)\<rparr>;
          opts = options input
      in case at_empty [m, n] opts w0 of
           (Inl e, w1) \<Rightarrow> (Inl e, w1\<lparr>current_device := original_device\<rparr>)
         | (Inr out, w1) \<Rightarrow>
             (let has_workspace = (m > 4)
              in case (if has_workspace
                       then (case at_empty [2 ^ 22] (opts\<lparr>opt_dtype := kInt8\<rparr>) w1 of
                               (Inl e, w2) \<Rightarrow> (Inl e, w2)
                             | (Inr t, w2) \<Rightarrow> (Inr (Some t), w2))
                       else (Inr None, w1)) of
                   (Inl e, w2) \<Rightarrow> (Inl e, w2\<lparr>current_device := original_device\<rparr>)
                 | (Inr workspace, w2) \<Rightarrow>
                     (let WT = (if bits = 4 then uint4b_t else uint8_t);
                          QuantOp = (if \<not> is_finegrained then PER_COLUMN_SCALE_ONLY
                                     else FINEGRAINED_SCALE_ONLY);
                          w3 = gemm_fp16_int_bias WT QuantOp
                                 (data_ptr input) (data_ptr weight) (data_ptr weight_scales)
                                 (map_option data_ptr bias_opt) (data_ptr out)
                                 m n k group_size
                                 (map_option data_ptr workspace)
                                 (if has_workspace then 2 ^ 22 else 0) w2
                      in (Inr out, w3\<lparr>current_device := original_device\<rparr>))))"

definition quant_matmul ::
  "Tensor \<Rightarrow> Tensor \<Rightarrow> Tensor \<Rightarrow> Tensor option \<Rightarrow> int \<Rightarrow> world \<Rightarrow> (error + Tensor) \<times> world" where
  "quant_matmul input weight weight_scales bias_opt bits w =
     (case quant_matmul_checks input weight weight_scales bias_opt bits of
        Inl e \<Rightarrow> (Inl e, w)
      | Inr (m, n, k, is_finegrained, group_size) \<Rightarrow>
          quant_matmul_launch input weight weight_scales bias_opt bits m n k
            is_finegrained group_size w)"

subsection \<open>Reading a recorded launch\<close>

text \<open>
  The group size and the quantization scheme a kernel was launched with. The batched
  launcher receives the scheme as \<^verbatim>\<open>WeightOnlyType\<close>; the GEMM runner has it as its
  template argument \<open>QuantOp\<close>, read here the way lines 38-40 of the source read it.
\<close>

fun launch_group_size :: "kernel_launch \<Rightarrow> int" where
  "launch_group_size (weight_only_batched_gemv_launcher params) = wo_group_size params"
| "launch_group_size (gemm_bias args) = gb_group_size args"

fun launch_scheme :: "kernel_launch \<Rightarrow> WeightOnlyType" where
  "launch_scheme (weight_only_batched_gemv_launcher params) = wo_weight_only_type params"
| "launch_scheme (gemm_bias args) =
     (if gb_quant_op args = PER_COLUMN_SCALE_ONLY then PerChannel else GroupWise)"

subsection \<open>Example calls\<close>

text \<open>
  Concrete tensors for evaluating the two operations: a contiguous tensor of a given
  shape, its buffer, and a world whose heap holds the buffers of the listed tensors.
\<close>

definition contiguous_tensor :: "nat list \<Rightarrow> ScalarType \<Rightarrow> Device \<Rightarrow> nat \<Rightarrow> Tensor" where
  "contiguous_tensor shape dt dev ptr =
     \<lparr>sizes = shape, dtype = dt, device = dev, is_contiguous = True, data_ptr = ptr\<rparr>"

definition buffer_of :: "Tensor \<Rightarrow> buffer" where
  "buffer_of t =
     \<lparr>buf_device = device t, buf_nbytes = prod_list (sizes t) * elementSize (dtype t),
      buf_contents = None\<rparr>"

definition world_of :: "Tensor list \<Rightarrow> world" where
  "world_of ts = \<lparr>heap = map buffer_of ts, current_device = 0, launched = []\<rparr>"

text \<open>Decode-style call: \<open>m = 1\<close>, \<open>n = 8\<close>, \<open>k = 128\<close>, 4 bits, one scale per channel.\<close>

definition decode_input :: Tensor where
  "decode_input = contiguous_tensor [1, 128] kFloat16 (CUDA 0) 0"

definition decode_weight :: Tensor where
  "decode_weight = contiguous_tensor [8, 64] kInt8 (CUDA 0) 1"

definition decode_scales :: Tensor where
  "decode_scales = contiguous_tensor [8] kFloat16 (CUDA 0) 2"

definition decode_world :: world where
  "decode_world = world_of [decode_input, decode_weight, decode_scales]"

text \<open>
  Larger batch: \<open>m = 32\<close>, \<open>n = 16\<close>, \<open>k = 256\<close>, 8 bits, group-wise scales with
  groups of 128, and a bias.
\<close>

definition prefill_input :: Tensor where
  "prefill_input = contiguous_tensor [32, 256] kFloat16 (CUDA 0) 0"

definition prefill_weight :: Tensor where
  "prefill_weight = contiguous_tensor [16, 256] kInt8 (CUDA 0) 1"

definition prefill_scales :: Tensor where
  "prefill_scales = contiguous_tensor [2, 16] kFloat16 (CUDA 0) 2"

definition prefill_bias :: Tensor where
  "prefill_bias = contiguous_tensor [16] kFloat16 (CUDA 0) 3"

definition prefill_world :: world where
  "prefill_world = world_of [prefill_input, prefill_weight, prefill_scales, prefill_bias]"

text \<open>A host matrix of three rows and five bytes per row, with known bytes.\<close>

definition host_weight :: Tensor where
  "host_weight = contiguous_tensor [3, 5] kInt8 CPU 0"

definition host_world :: world where
  "host_world =
     \<lparr>heap = [(buffer_of host_weight)\<lparr>buf_contents := Some (map word_of_nat [0 ..< 15])\<rparr>],
      current_device = 0, launched = []\<rparr>"

text \<open>
  An activation of \<open>2 ^ 31\<close> rows and one column (4 GiB of fp16), with an 8-bit weight
  of eight output channels.
\<close>

definition huge_input :: Tensor where
  "huge_input = contiguous_tensor [2147483648, 1] kFloat16 (CUDA 0) 0"

definition huge_weight :: Tensor where
  "huge_weight = contiguous_tensor [8, 1] kInt8 (CUDA 0) 1"

definition huge_world :: world where
  "huge_world = world_of [huge_input, huge_weight, decode_scales]"

text \<open>The decode-style weight on a second GPU, and the decode-style activation on the host.\<close>

definition remote_weight :: Tensor where
  "remote_weight = contiguous_tensor [8, 64] kInt8 (CUDA 1) 1"

definition mismatch_world :: world where
  "mismatch_world = world_of [decode_input, remote_weight, decode_scales]"

definition host_input :: Tensor where
  "host_input = contiguous_tensor [1, 128] kFloat16 CPU 0"

definition host_input_world :: world where
  "host_input_world = world_of [host_input, decode_weight, decode_scales]"

text \<open>
  Scales of rank 2 with no rows; an activation with an empty reduction dimension; and
  \<open>k = 192\<close> with two rows of scales, a group size of 96.
\<close>

definition empty_scales :: Tensor where
  "empty_scales = contiguous_tensor [0, 8] kFloat16 (CUDA 0) 2"

definition empty_k_input :: Tensor where
  "empty_k_input = contiguous_tensor [1, 0] kFloat16 (CUDA 0) 0"

definition empty_k_weight :: Tensor where
  "empty_k_weight = contiguous_tensor [8, 0] kInt8 (CUDA 0) 1"

definition g96_input :: Tensor where
  "g96_input = contiguous_tensor [1, 192] kFloat16 (CUDA 0) 0"

definition g96_weight :: Tensor where
  "g96_weight = contiguous_tensor [8, 96] kInt8 (CUDA 0) 1"

definition g96_scales :: Tensor where
  "g96_scales = contiguous_tensor [2, 8] kFloat16 (CUDA 0) 2"

definition g96_world :: world where
  "g96_world = world_of [g96_input, g96_weight, g96_scales]"

text \<open>A host matrix of \<open>2 ^ 31 + 1\<close> rows and one byte per row (2 GiB).\<close>

definition tall_weight :: Tensor where
  "tall_weight = contiguous_tensor [2147483649, 1] kInt8 CPU 0"

definition tall_world :: world where
  "tall_world = world_of [tall_weight]"

lemmas example_defs =
  contiguous_tensor_def buffer_of_def world_of_def
  decode_input_def decode_weight_def decode_scales_def decode_world_def
  prefill_input_def prefill_weight_def prefill_scales_def prefill_bias_def prefill_world_def
  host_weight_def host_world_def

lemmas operation_defs =
  quant_matmul_def quant_matmul_checks_def quant_matmul_launch_def
  preprocess_weight_def preprocess_weight_checks_def preprocess_weights_for_mixed_gemm_def
  gemm_fp16_int_bias_def dispatch_to_weight_only_batched_gemv_def at_empty_def
  and_then_def TORCH_CHECK_def size_dim_def dim_def int64_div_def int64_mul_def int_mod_def
  int32_def char_cast_def has_shape_def is_cuda_def is_cpu_def get_device_def options_def
  signed_divide_int_def signed_modulo_int_def Let_def

section \<open>Properties\<close>

subsection \<open>Auxiliary facts\<close>

lemma and_then_Inr_iff: "and_then r f = Inr y \<longleftrightarrow> (\<exists>x. r = Inr x \<and> f x = Inr y)"
  by (cases r) (simp_all add: and_then_def)

lemma TORCH_CHECK_Inr_iff: "TORCH_CHECK c msg = Inr u \<longleftrightarrow> c"
  by (simp add: TORCH_CHECK_def)

lemma TORCH_CHECKS_Inr_iff: "TORCH_CHECKS cs = Inr u \<longleftrightarrow> list_all fst cs"
  by (induction cs rule: TORCH_CHECKS.induct) auto

lemma size_dim_Inr_iff:
  "size_dim t d = Inr s \<longleftrightarrow> d < length (sizes t) \<and> s = int (sizes t ! d)"
  by (auto simp: size_dim_def dim_def)

lemma int64_div_Inr_iff:
  "int64_div a b = Inr q \<longleftrightarrow> b \<noteq> 0 \<and> \<not> (a = - (2 ^ 63) \<and> b = - 1) \<and> q = a sdiv b"
  by (auto simp: int64_div_def)

lemma int64_mul_Inr_iff:
  "int64_mul a b = Inr p \<longleftrightarrow> - (2 ^ 63) \<le> a * b \<and> a * b < 2 ^ 63 \<and> p = a * b"
  by (auto simp: int64_mul_def)

lemma int_mod_Inr_iff:
  "int_mod a b = Inr r \<longleftrightarrow> b \<noteq> 0 \<and> \<not> (a = - (2 ^ 31) \<and> b = - 1) \<and> r = a smod b"
  by (auto simp: int_mod_def)

lemmas Inr_iffs =
  and_then_Inr_iff TORCH_CHECK_Inr_iff TORCH_CHECKS_Inr_iff size_dim_Inr_iff
  int64_div_Inr_iff int64_mul_Inr_iff int_mod_Inr_iff

text \<open>What a passed validation of \<open>quant_matmul\<close> says about the inputs.\<close>

lemma quant_matmul_checks_Inr:
  assumes "quant_matmul_checks input weight weight_scales bias_opt bits = Inr (m, n, k, fg, g)"
  shows "bits = 4 \<or> bits = 8"
    and "1 < length (sizes input)" and "0 < length (sizes weight)"
    and "m = int32 (int (sizes input ! 0))"
    and "k = int32 (int (sizes input ! 1))"
    and "n = int32 (int (sizes weight ! 0))"
    and "has_shape input [m, k]"
    and "has_shape weight [n, k sdiv (8 sdiv bits)]"
    and "fg = (dim weight_scales = 2)"
    and "g = (if fg then int32 (k sdiv int (sizes weight_scales ! 0)) else k)"
    and "g \<noteq> 0" and "k smod g = 0"
    and "fg \<Longrightarrow> g = 64 \<or> g = 128"
    and "n smod 8 = 0"
    and "dtype input = kFloat16" "dtype weight = kInt8" "dtype weight_scales = kFloat16"
    and "is_cuda input" "is_cuda weight" "is_cuda weight_scales"
    and "is_contiguous input" "is_contiguous weight" "is_contiguous weight_scales"
    and "has_shape weight_scales (if fg then [k sdiv g, n] else [n])"
  using assms
  unfolding quant_matmul_checks_def Let_def
  by (auto simp: Inr_iffs split: if_splits)

text \<open>The two outcomes of lines 143-172, written out.\<close>

lemma quant_matmul_launch_gemv:
  assumes "0 \<le> m" "0 \<le> n" "m \<le> 4"
  shows "quant_matmul_launch input weight weight_scales bias_opt bits m n k fg g w =
     (Inr \<lparr>sizes = [nat m, nat n], dtype = dtype input, device = device input,
            is_contiguous = True, data_ptr = length (heap w)\<rparr>,
      w\<lparr>heap := heap w @
           [\<lparr>buf_device = device input,
             buf_nbytes = nat m * nat n * elementSize (dtype input),
             buf_contents = None\<rparr>],
         launched := launched w @
           [(char_cast (get_device input),
             weight_only_batched_gemv_launcher
               \<lparr>wo_qweight = data_ptr weight, wo_scales = data_ptr weight_scales,
                wo_zeros = None, wo_in = data_ptr input, wo_act_scale = None,
                wo_bias = map_option data_ptr bias_opt, wo_out = length (heap w),
                wo_m = m, wo_n = n, wo_k = k, wo_group_size = g,
                wo_quant_type = (if bits = 4 then Int4b else Int8b),
                wo_weight_only_type = (if fg then GroupWise else PerChannel),
                wo_act_func_type = Identity, wo_act_type = FP16\<rparr>)]\<rparr>)"
  using assms
  by (simp add: quant_matmul_launch_def at_empty_def options_def gemm_fp16_int_bias_def
      dispatch_to_weight_only_batched_gemv_def Let_def)

lemma quant_matmul_launch_gemm:
  assumes "0 \<le> m" "0 \<le> n" "4 < m"
  shows "quant_matmul_launch input weight weight_scales bias_opt bits m n k fg g w =
     (Inr \<lparr>sizes = [nat m, nat n], dtype = dtype input, device = device input,
            is_contiguous = True, data_ptr = length (heap w)\<rparr>,
      w\<lparr>heap := heap w @
           [\<lparr>buf_device = device input,
             buf_nbytes = nat m * nat n * elementSize (dtype input),
             buf_contents = None\<rparr>,
            \<lparr>buf_device = device input, buf_nbytes = 2 ^ 22, buf_contents = None\<rparr>],
         launched := launched w @
           [(char_cast (get_device input),
             gemm_bias
               \<lparr>gb_weight_type = (if bits = 4 then uint4b_t else uint8_t),
                gb_quant_op = (if fg then FINEGRAINED_SCALE_ONLY else PER_COLUMN_SCALE_ONLY),
                gb_A = data_ptr input, gb_B = data_ptr weight,
                gb_weight_scales = data_ptr weight_scales, gb_weight_zero_points = None,
                gb_biases = map_option data_ptr bias_opt, gb_C = length (heap w),
                gb_m = m, gb_n = n, gb_k = k, gb_group_size = g,
                gb_workspace_ptr = Some (Suc (length (heap w))),
                gb_workspace_bytes = 2 ^ 22\<rparr>)]\<rparr>)"
  using assms
  by (simp add: quant_matmul_launch_def at_empty_def options_def gemm_fp16_int_bias_def
      Let_def)

lemma int32_eq_self_iff: "int32 x = x \<longleftrightarrow> - (2 ^ 31) \<le> x \<and> x < 2 ^ 31"
  by (simp add: int32_def signed_take_bit_int_eq_self_iff)

lemma has_shape_2:
  "has_shape t [a, b] \<Longrightarrow>
   sizes t = [nat a, nat b] \<and> 0 \<le> a \<and> 0 \<le> b \<and> a = int (sizes t ! 0) \<and> b = int (sizes t ! 1)"
  by (auto simp: has_shape_def)

lemma quant_matmul_Inr_checks:
  assumes "quant_matmul input weight weight_scales bias_opt bits w = (Inr out, w')"
  obtains m n k fg g where
    "quant_matmul_checks input weight weight_scales bias_opt bits = Inr (m, n, k, fg, g)"
    "quant_matmul_launch input weight weight_scales bias_opt bits m n k fg g w = (Inr out, w')"
  using assms by (auto simp: quant_matmul_def split: sum.splits)

lemma and_then_Inr: "and_then (Inr x) f = f x"
  by (simp add: and_then_def)

lemma and_then_Inl: "and_then (Inl e) f = Inl e"
  by (simp add: and_then_def)

lemma sdiv_of_nat: "int a sdiv int b = int (a div b)"
  by (simp add: signed_divide_int_def sgn_if zdiv_int)

lemma smod_of_nat: "int a smod int b = int (a mod b)"
  by (simp add: signed_modulo_int_def sgn_if zmod_int)

lemma elts_per_byte: "(8::int) sdiv 4 = 2" "(8::int) sdiv 8 = 1"
  by (simp_all add: signed_divide_int_def)

lemma int32_of_nat: "n < 2 ^ 31 \<Longrightarrow> int32 (int n) = int n"
  by (simp add: int32_eq_self_iff)

lemma int32_range: "- (2 ^ 31) \<le> int32 x" "int32 x < 2 ^ 31"
  unfolding int32_def
  using signed_take_bit_int_greater_eq_minus_exp [of 31 x] signed_take_bit_int_less_exp [of 31 x]
  by simp_all

lemma even_int32: "even (int32 x) \<longleftrightarrow> even x"
  by (simp add: int32_def even_signed_take_bit_iff)

lemma has_shape_dim: "has_shape t shape \<Longrightarrow> dim t = length shape"
  unfolding has_shape_def dim_def by (metis length_map)

lemma has_shape_2_nonneg:
  "has_shape t [a, b] \<Longrightarrow> 0 \<le> a"
  "has_shape t [a, b] \<Longrightarrow> 0 \<le> b"
  by (auto simp: has_shape_def)

lemma has_shape_2_nth:
  "has_shape t [a, b] \<Longrightarrow> a = int (sizes t ! 0)"
  "has_shape t [a, b] \<Longrightarrow> b = int (sizes t ! 1)"
  by (auto simp: has_shape_def)

text \<open>Once validation has passed, lines 143-172 return the output and launch one kernel.\<close>

lemma quant_matmul_launch_Inr:
  assumes "0 \<le> m" "0 \<le> n"
  shows "\<exists>out w'. quant_matmul_launch input weight weight_scales bias_opt bits m n k fg g w
            = (Inr out, w') \<and>
          sizes out = [nat m, nat n] \<and> length (heap w) < length (heap w')"
  using assms
  by (cases "m \<le> 4") (simp_all add: quant_matmul_launch_gemv quant_matmul_launch_gemm)

lemma quant_matmul_launch_scheme:
  assumes "0 \<le> m" "0 \<le> n"
  shows "\<exists>out w' l. quant_matmul_launch input weight weight_scales bias_opt bits m n k fg g w
            = (Inr out, w') \<and>
          launched w' = launched w @ [(char_cast (get_device input), l)] \<and>
          launch_group_size l = g \<and>
          launch_scheme l = (if fg then GroupWise else PerChannel)"
  using assms
  by (cases "m \<le> 4") (simp_all add: quant_matmul_launch_gemv quant_matmul_launch_gemm)

subsection \<open>Strategy selection and workspace\<close>

text \<open>
  Claim C1. In every call of \<open>quant_matmul\<close> that returns a tensor, the batch size
  \<open>m\<close> (the first dimension of the activation) alone selects the strategy. With
  \<open>m \<le> 4\<close> the batched-vector launcher is called and the call allocates one buffer,
  the output's: there is no workspace. With \<open>m > 4\<close> the tiled-GEMM runner is called
  and the call allocates two buffers, the output's and a workspace of exactly
  \<open>2 ^ 22\<close> bytes, which is passed to the runner with that size, whatever \<open>m\<close>,
  \<open>n\<close> and \<open>k\<close> are. The buffers that existed before the call are unchanged.
\<close>

theorem quant_matmul_strategy:
  assumes "quant_matmul input weight weight_scales bias_opt bits w = (Inr out, w')"
  shows "data_ptr out = length (heap w) \<and>
         take (length (heap w)) (heap w') = heap w \<and>
         (if int (sizes input ! 0) \<le> 4
          then length (heap w') = length (heap w) + 1 \<and>
               (\<exists>params. launched w' = launched w @
                  [(char_cast (get_device input), weight_only_batched_gemv_launcher params)])
          else length (heap w') = length (heap w) + 2 \<and>
               buf_nbytes (heap w' ! (length (heap w) + 1)) = 2 ^ 22 \<and>
               (\<exists>args. launched w' = launched w @
                  [(char_cast (get_device input), gemm_bias args)] \<and>
                  gb_workspace_ptr args = Some (length (heap w) + 1) \<and>
                  gb_workspace_bytes args = 2 ^ 22))"
proof -
  from assms obtain m n k fg g where
    chk: "quant_matmul_checks input weight weight_scales bias_opt bits = Inr (m, n, k, fg, g)"
    and run: "quant_matmul_launch input weight weight_scales bias_opt bits m n k fg g w
                = (Inr out, w')"
    by (rule quant_matmul_Inr_checks)
  from quant_matmul_checks_Inr(7,8)[OF chk]
  have m: "0 \<le> m" "m = int (sizes input ! 0)" and n: "0 \<le> n"
    by (auto dest: has_shape_2)
  show ?thesis
  proof (cases "m \<le> 4")
    case True
    with run m n show ?thesis
      by (simp add: quant_matmul_launch_gemv) (auto simp: nth_append)
  next
    case False
    with run m n show ?thesis
      by (simp add: quant_matmul_launch_gemm) (auto simp: nth_append)
  qed
qed

text \<open>
  The decode-style call takes the batched-vector path with four buffers in the heap
  afterwards (three inputs and the output); the larger batch takes the tiled-GEMM
  path with six (four inputs, the output and the workspace of 4194304 bytes).
\<close>

theorem quant_matmul_strategy_witness:
  "fst (quant_matmul decode_input decode_weight decode_scales None 4 decode_world)
     = Inr (contiguous_tensor [1, 8] kFloat16 (CUDA 0) 3) \<and>
   length (heap (snd (quant_matmul decode_input decode_weight decode_scales None 4
     decode_world))) = 4 \<and>
   fst (quant_matmul prefill_input prefill_weight prefill_scales (Some prefill_bias) 8
     prefill_world) = Inr (contiguous_tensor [32, 16] kFloat16 (CUDA 0) 4) \<and>
   length (heap (snd (quant_matmul prefill_input prefill_weight prefill_scales
     (Some prefill_bias) 8 prefill_world))) = 6 \<and>
   buf_nbytes (heap (snd (quant_matmul prefill_input prefill_weight prefill_scales
     (Some prefill_bias) 8 prefill_world)) ! 5) = 4194304"
proof -
  have fd: "fst (quant_matmul decode_input decode_weight decode_scales None 4 decode_world)
      = Inr (contiguous_tensor [1, 8] kFloat16 (CUDA 0) 3)"
    by (simp add: operation_defs example_defs)
  have fp: "fst (quant_matmul prefill_input prefill_weight prefill_scales (Some prefill_bias) 8
        prefill_world) = Inr (contiguous_tensor [32, 16] kFloat16 (CUDA 0) 4)"
    by (simp add: operation_defs example_defs)
  have d: "quant_matmul decode_input decode_weight decode_scales None 4 decode_world
      = (Inr (contiguous_tensor [1, 8] kFloat16 (CUDA 0) 3),
         snd (quant_matmul decode_input decode_weight decode_scales None 4 decode_world))"
    using fd by (simp add: prod_eq_iff)
  have p: "quant_matmul prefill_input prefill_weight prefill_scales (Some prefill_bias) 8
        prefill_world
      = (Inr (contiguous_tensor [32, 16] kFloat16 (CUDA 0) 4),
         snd (quant_matmul prefill_input prefill_weight prefill_scales (Some prefill_bias) 8
           prefill_world))"
    using fp by (simp add: prod_eq_iff)
  have dw: "length (heap decode_world) = 3" "sizes decode_input ! 0 = 1"
    and pw: "length (heap prefill_world) = 4" "sizes prefill_input ! 0 = 32"
    by (simp_all add: example_defs)
  from quant_matmul_strategy [OF d] quant_matmul_strategy [OF p] fd fp dw pw
  show ?thesis by simp
qed

subsection \<open>Failures leave no trace\<close>

text \<open>
  Claim C6. A call of \<open>quant_matmul\<close> that fails leaves the world as it found it: no
  buffer is allocated, for the output or for a workspace, and no kernel is launched;
  and every failure is a failure of the validation of lines 106-139. With
  \<open>bits = 3\<close> the call fails at the first check. Conversely, a call that allocates
  anything has passed every validation check.
\<close>

theorem quant_matmul_failure_allocates_nothing:
  assumes "quant_matmul input weight weight_scales bias_opt bits w = (r, w')"
  shows "(\<forall>e. r = Inl e \<longrightarrow>
            w' = w \<and> quant_matmul_checks input weight weight_scales bias_opt bits = Inl e) \<and>
         (bits = 3 \<longrightarrow> r = Inl (TorchCheck ''bits == 4 || bits == 8'')) \<and>
         (heap w' \<noteq> heap w \<longrightarrow>
            (\<exists>v. quant_matmul_checks input weight weight_scales bias_opt bits = Inr v))"
proof (cases "quant_matmul_checks input weight weight_scales bias_opt bits")
  case (Inl e)
  with assms have "r = Inl e" "w' = w"
    by (simp_all add: quant_matmul_def)
  moreover have "bits = 3 \<Longrightarrow> e = TorchCheck ''bits == 4 || bits == 8''"
    using Inl by (simp add: quant_matmul_checks_def TORCH_CHECK_def and_then_def)
  ultimately show ?thesis using Inl by simp
next
  case (Inr v)
  obtain m n k fg g where v: "v = (m, n, k, fg, g)"
    by (cases v) auto
  note f = quant_matmul_checks_Inr [OF Inr [unfolded v]]
  have "0 \<le> m" "0 \<le> n"
    using has_shape_2_nonneg(1) [OF f(7)] has_shape_2_nonneg(1) [OF f(8)] .
  moreover from f(1) have "bits \<noteq> 3"
    by auto
  ultimately show ?thesis
    using quant_matmul_launch_Inr [of m n input weight weight_scales bias_opt bits k fg g w]
      assms Inr v
    by (auto simp: quant_matmul_def)
qed

text \<open>The decode-style call with \<open>bits = 3\<close>: rejected, and the world is unchanged.\<close>

theorem quant_matmul_failure_allocates_nothing_witness:
  "quant_matmul decode_input decode_weight decode_scales None 3 decode_world
     = (Inl (TorchCheck ''bits == 4 || bits == 8''), decode_world) \<and>
   quant_matmul_checks decode_input decode_weight decode_scales None 3
     = Inl (TorchCheck ''bits == 4 || bits == 8'')"
proof -
  have e: "quant_matmul decode_input decode_weight decode_scales None 3 decode_world
     = (Inl (TorchCheck ''bits == 4 || bits == 8''), decode_world)"
    by (simp add: quant_matmul_def quant_matmul_checks_def TORCH_CHECK_def and_then_def)
  from quant_matmul_failure_allocates_nothing [OF e] e show ?thesis
    by simp
qed

subsection \<open>Division by zero in the group-size computation\<close>

text \<open>
  Claim C9. The claim is that the divisors on lines 111 and 112 are never zero. The
  code has no guard: scales of rank 2 with no rows make
  \<^verbatim>\<open>k / weight_scales.size(0)\<close> a division by zero, and an activation with \<open>k = 0\<close>
  and scales of rank 1 makes \<^verbatim>\<open>k % group_size\<close> a remainder by zero. Both calls
  below are otherwise well-formed.
\<close>

theorem quant_matmul_division_by_zero:
  "quant_matmul decode_input decode_weight empty_scales None 4 w = (Inl DivisionByZero, w) \<and>
   quant_matmul empty_k_input empty_k_weight decode_scales None 4 w = (Inl DivisionByZero, w)"
  by (simp add: operation_defs example_defs empty_scales_def empty_k_input_def
      empty_k_weight_def)

subsection \<open>Device placement\<close>

lemma device_update_simps:
  "size_dim (t\<lparr>device := d\<rparr>) i = size_dim t i"
  "has_shape (t\<lparr>device := d\<rparr>) s = has_shape t s"
  "is_cuda (t\<lparr>device := CUDA j\<rparr>)"
  by (simp_all add: size_dim_def dim_def has_shape_def is_cuda_def)

text \<open>
  If the call would pass validation with the activation and the weight moved to GPUs,
  then with one of them off the GPU it fails at that tensor's \<^verbatim>\<open>is_cuda()\<close> check.
\<close>

lemma checks_on_gpu_twin:
  assumes ok: "quant_matmul_checks (input\<lparr>device := CUDA i\<rparr>) (weight\<lparr>device := CUDA j\<rparr>)
                  weight_scales bias_opt bits = Inr v"
    and off: "\<not> is_cuda input \<or> \<not> is_cuda weight"
  shows "quant_matmul_checks input weight weight_scales bias_opt bits =
     Inl (TorchCheck (if is_cuda input then ''weight.is_cuda()'' else ''input.is_cuda()''))"
proof (cases "dim weight_scales = 2")
  case True
  with ok off show ?thesis
    unfolding quant_matmul_checks_def Let_def
    by (cases "is_cuda input")
       (clarsimp simp: and_then_Inr_iff and_then_Inr device_update_simps
          and_then_Inl TORCH_CHECK_def split: if_splits)+
next
  case False
  with ok off show ?thesis
    unfolding quant_matmul_checks_def Let_def
    by (cases "is_cuda input")
       (clarsimp simp: and_then_Inr_iff and_then_Inr device_update_simps
          and_then_Inl TORCH_CHECK_def split: if_splits)+
qed

text \<open>
  Claim C3, as stated, fails: the code tests that each tensor is on some GPU
  (\<^verbatim>\<open>is_cuda()\<close>, lines 119-121) and never compares devices. With the activation on
  device 0 and the weight on device 1 the call passes validation, allocates the
  output and launches the kernel with device 0 current.
\<close>

theorem quant_matmul_device_mismatch_counterexample:
  "device decode_input = CUDA 0 \<and> device remote_weight = CUDA 1 \<and>
   fst (quant_matmul decode_input remote_weight decode_scales None 4 mismatch_world)
     = Inr (contiguous_tensor [1, 8] kFloat16 (CUDA 0) 3) \<and>
   launched (snd (quant_matmul decode_input remote_weight decode_scales None 4 mismatch_world))
     = [(0, weight_only_batched_gemv_launcher
              \<lparr>wo_qweight = 1, wo_scales = 2, wo_zeros = None, wo_in = 0,
               wo_act_scale = None, wo_bias = None, wo_out = 3,
               wo_m = 1, wo_n = 8, wo_k = 128, wo_group_size = 128,
               wo_quant_type = Int4b, wo_weight_only_type = PerChannel,
               wo_act_func_type = Identity, wo_act_type = FP16\<rparr>)]"
  by (simp add: operation_defs example_defs remote_weight_def mismatch_world_def)

text \<open>
  Claim C3, amended. If the activation or the weight is not on a GPU at all, the call
  fails and leaves the world unchanged: nothing is allocated and no kernel is
  launched. If the call would pass validation with these two tensors on GPUs
  (any two, \<open>i\<close> and \<open>j\<close>, equal or not), the failure is that of the \<^verbatim>\<open>is_cuda()\<close>
  check of the first of the two that is off the GPU.
\<close>

theorem quant_matmul_off_gpu_rejected:
  assumes "\<not> is_cuda input \<or> \<not> is_cuda weight"
  shows "(\<exists>e. quant_matmul input weight weight_scales bias_opt bits w = (Inl e, w)) \<and>
         ((\<exists>v. quant_matmul_checks (input\<lparr>device := CUDA i\<rparr>) (weight\<lparr>device := CUDA j\<rparr>)
                  weight_scales bias_opt bits = Inr v) \<longrightarrow>
          quant_matmul input weight weight_scales bias_opt bits w =
            (Inl (TorchCheck (if is_cuda input then ''weight.is_cuda()''
                              else ''input.is_cuda()'')), w))"
proof (intro conjI impI)
  show "\<exists>e. quant_matmul input weight weight_scales bias_opt bits w = (Inl e, w)"
  proof (cases "quant_matmul_checks input weight weight_scales bias_opt bits")
    case (Inl e)
    then show ?thesis by (simp add: quant_matmul_def)
  next
    case (Inr v)
    obtain m n k fg g where v: "v = (m, n, k, fg, g)"
      by (cases v) auto
    from quant_matmul_checks_Inr(18,19) [OF Inr [unfolded v]] assms
    show ?thesis by simp
  qed
next
  assume "\<exists>v. quant_matmul_checks (input\<lparr>device := CUDA i\<rparr>) (weight\<lparr>device := CUDA j\<rparr>)
                  weight_scales bias_opt bits = Inr v"
  then obtain v where
    "quant_matmul_checks (input\<lparr>device := CUDA i\<rparr>) (weight\<lparr>device := CUDA j\<rparr>)
                  weight_scales bias_opt bits = Inr v"
    by blast
  from checks_on_gpu_twin [OF this assms]
  show "quant_matmul input weight weight_scales bias_opt bits w =
            (Inl (TorchCheck (if is_cuda input then ''weight.is_cuda()''
                              else ''input.is_cuda()'')), w)"
    by (simp add: quant_matmul_def)
qed

text \<open>The decode-style call with its activation in host memory.\<close>

theorem quant_matmul_off_gpu_rejected_witness:
  "quant_matmul host_input decode_weight decode_scales None 4 host_input_world
     = (Inl (TorchCheck ''input.is_cuda()''), host_input_world)"
proof -
  have off: "\<not> is_cuda host_input \<or> \<not> is_cuda decode_weight"
    by (simp add: example_defs host_input_def is_cuda_def)
  have "quant_matmul_checks (host_input\<lparr>device := CUDA 0\<rparr>) (decode_weight\<lparr>device := CUDA 0\<rparr>)
      decode_scales None 4 = Inr (1, 8, 128, False, 128)"
    by (simp add: operation_defs example_defs host_input_def)
  then have twin: "\<exists>v. quant_matmul_checks (host_input\<lparr>device := CUDA 0\<rparr>)
      (decode_weight\<lparr>device := CUDA 0\<rparr>) decode_scales None 4 = Inr v"
    by blast
  have "\<not> is_cuda host_input"
    by (simp add: example_defs host_input_def is_cuda_def)
  with quant_matmul_off_gpu_rejected [OF off, of decode_scales None 4 host_input_world 0 0] twin
  show ?thesis
    by simp
qed

subsection \<open>Valid calls succeed\<close>

lemma bias_checks:
  assumes "case bias_opt of None \<Rightarrow> True
           | Some b \<Rightarrow> dtype b = kFloat16 \<and> is_cuda b \<and> is_contiguous b \<and> sizes b = [N]"
    and "n = int N"
  shows "(case bias_opt of
            None \<Rightarrow> Inr ()
          | Some bias \<Rightarrow> TORCH_CHECKS
              [(dtype bias = kFloat16, ''bias.dtype() == torch::kFloat16''),
               (is_cuda bias, ''bias.is_cuda()''),
               (is_contiguous bias, ''bias.is_contiguous()''),
               (has_shape bias [n], ''bias must have shape (n)'')]) = Inr ()"
  using assms by (cases bias_opt) (simp_all add: has_shape_def)

lemma group_quotient:
  assumes "K mod G = 0" and "0 < (K::nat)"
  shows "0 < K div G" and "K div (K div G) = G"
proof -
  define d where "d = K div G"
  have KG: "K = G * d"
    using assms(1) mult_div_mod_eq [of G K] by (simp add: d_def)
  with assms(2) show pos: "0 < K div G"
    unfolding d_def [symmetric] by (cases "d = 0") simp_all
  from KG have "K div d = G * d div d"
    by (rule arg_cong)
  with pos show "K div (K div G) = G"
    unfolding d_def [symmetric] by simp
qed

text \<open>Validation of a well-formed call with one scale per output channel.\<close>

lemma quant_matmul_checks_per_channel:
  assumes bits: "bits = 4 \<or> bits = 8"
    and input: "sizes input = [M, K]" "dtype input = kFloat16" "is_cuda input"
      "is_contiguous input"
    and weight: "sizes weight = [N, K div nat (8 div bits)]" "dtype weight = kInt8"
      "is_cuda weight" "is_contiguous weight" "N mod 8 = 0"
    and scales: "dtype weight_scales = kFloat16" "is_cuda weight_scales"
      "is_contiguous weight_scales" "sizes weight_scales = [N]"
    and bias: "case bias_opt of None \<Rightarrow> True
               | Some b \<Rightarrow> dtype b = kFloat16 \<and> is_cuda b \<and> is_contiguous b \<and> sizes b = [N]"
    and range: "M < 2 ^ 31" "N < 2 ^ 31" "K < 2 ^ 31" "0 < K"
  shows "quant_matmul_checks input weight weight_scales bias_opt bits =
          Inr (int M, int N, int K, False, int K)"
proof -
  have b: "(case bias_opt of
              None \<Rightarrow> Inr ()
            | Some bias \<Rightarrow> TORCH_CHECKS
                [(dtype bias = kFloat16, ''bias.dtype() == torch::kFloat16''),
                 (is_cuda bias, ''bias.is_cuda()''),
                 (is_contiguous bias, ''bias.is_contiguous()''),
                 (has_shape bias [int32 (int N)], ''bias must have shape (n)'')]) = Inr ()"
    by (rule bias_checks [OF bias]) (rule int32_of_nat [OF range(2)])
  have dims: "size_dim input 0 = Inr (int M)" "size_dim input (Suc 0) = Inr (int K)"
      "size_dim weight 0 = Inr (int N)"
    using input(1) weight(1) by (simp_all add: size_dim_def dim_def)
  have i32: "int32 (int M) = int M" "int32 (int N) = int N" "int32 (int K) = int K"
    using range by (simp_all add: int32_of_nat)
  have n8: "int N smod 8 = 0"
    using smod_of_nat [of N 8] weight(5) by simp
  have ishape: "has_shape input [int M, int K]"
    using input(1) by (simp add: has_shape_def)
  have "int K sdiv (8 sdiv bits) = int (K div nat (8 div bits))"
    using bits sdiv_of_nat [of K 2] by (auto simp: elts_per_byte)
  then have wshape: "has_shape weight [int N, int K sdiv (8 sdiv bits)]"
    using weight(1) by (simp add: has_shape_def)
  have fg: "dim weight_scales \<noteq> 2" and sshape: "has_shape weight_scales [int N]"
    using scales(4) by (simp_all add: dim_def has_shape_def)
  have r: "int_mod (int K) (int K) = Inr 0"
    using range(4) smod_of_nat [of K K] by (simp add: int_mod_def)
  show ?thesis
    unfolding quant_matmul_checks_def Let_def
    by (simp add: bits dims i32 n8 ishape wshape input(2-4) weight(2-4) scales(1-3)
          fg sshape r and_then_Inr TORCH_CHECK_def)
       (subst b, rule and_then_Inr)
qed

text \<open>Validation of a well-formed call with group-wise scales, groups of \<open>G\<close>.\<close>

lemma quant_matmul_checks_group_wise:
  assumes bits: "bits = 4 \<or> bits = 8"
    and input: "sizes input = [M, K]" "dtype input = kFloat16" "is_cuda input"
      "is_contiguous input"
    and weight: "sizes weight = [N, K div nat (8 div bits)]" "dtype weight = kInt8"
      "is_cuda weight" "is_contiguous weight" "N mod 8 = 0"
    and scales: "dtype weight_scales = kFloat16" "is_cuda weight_scales"
      "is_contiguous weight_scales" "sizes weight_scales = [K div G, N]"
    and G: "G = 64 \<or> G = 128" "K mod G = 0"
    and bias: "case bias_opt of None \<Rightarrow> True
               | Some b \<Rightarrow> dtype b = kFloat16 \<and> is_cuda b \<and> is_contiguous b \<and> sizes b = [N]"
    and range: "M < 2 ^ 31" "N < 2 ^ 31" "K < 2 ^ 31" "0 < K"
  shows "quant_matmul_checks input weight weight_scales bias_opt bits =
          Inr (int M, int N, int K, True, int G)"
proof -
  have b: "(case bias_opt of
              None \<Rightarrow> Inr ()
            | Some bias \<Rightarrow> TORCH_CHECKS
                [(dtype bias = kFloat16, ''bias.dtype() == torch::kFloat16''),
                 (is_cuda bias, ''bias.is_cuda()''),
                 (is_contiguous bias, ''bias.is_contiguous()''),
                 (has_shape bias [int32 (int N)], ''bias must have shape (n)'')]) = Inr ()"
    by (rule bias_checks [OF bias]) (rule int32_of_nat [OF range(2)])
  have dims: "size_dim input 0 = Inr (int M)" "size_dim input (Suc 0) = Inr (int K)"
      "size_dim weight 0 = Inr (int N)"
    using input(1) weight(1) by (simp_all add: size_dim_def dim_def)
  have i32: "int32 (int M) = int M" "int32 (int N) = int N" "int32 (int K) = int K"
    using range by (simp_all add: int32_of_nat)
  have n8: "int N smod 8 = 0"
    using smod_of_nat [of N 8] weight(5) by simp
  have ishape: "has_shape input [int M, int K]"
    using input(1) by (simp add: has_shape_def)
  have "int K sdiv (8 sdiv bits) = int (K div nat (8 div bits))"
    using bits sdiv_of_nat [of K 2] by (auto simp: elts_per_byte)
  then have wshape: "has_shape weight [int N, int K sdiv (8 sdiv bits)]"
    using weight(1) by (simp add: has_shape_def)
  define d where "d = K div G"
  have fg: "dim weight_scales = 2"
    using scales(4) by (simp add: dim_def)
  have s0: "size_dim weight_scales 0 = Inr (int d)"
    using scales(4) by (simp add: dim_def size_dim_def d_def)
  have d: "0 < d" "K div d = G"
    using group_quotient [OF G(2) range(4)] by (simp_all add: d_def)
  then have q: "int64_div (int K) (int d) = Inr (int G)"
    by (simp add: int64_div_def sdiv_of_nat)
  have g32: "int32 (int G) = int G"
    using G(1) by (auto simp: int32_eq_self_iff)
  have r: "int_mod (int K) (int G) = Inr 0"
    using G smod_of_nat [of K G] by (auto simp: int_mod_def)
  have sshape: "has_shape weight_scales [int K sdiv int G, int N]"
    using scales(4) by (simp add: has_shape_def sdiv_of_nat)
  show ?thesis
    unfolding quant_matmul_checks_def Let_def
    by (simp add: bits dims i32 n8 ishape wshape input(2-4) weight(2-4) scales(1-3)
          fg s0 q g32 r G(1) sshape and_then_Inr TORCH_CHECK_def)
       (subst b, rule and_then_Inr)
qed

text \<open>
  Claim C4, as stated, fails: \<open>m\<close>, \<open>n\<close> and \<open>k\<close> are \<^verbatim>\<open>int\<close>s. An fp16 activation
  of shape \<open>(2 ^ 31, 1)\<close> with an int8 weight of shape \<open>(8, 1)\<close>, scales of shape
  \<open>(8)\<close> and \<open>bits = 8\<close> meets every listed precondition, and the call fails:
  \<open>m\<close> is read as \<open>- 2 ^ 31\<close> and \<^verbatim>\<open>CHECK_SHAPE(input, m, k)\<close> rejects the tensor.
\<close>

theorem quant_matmul_huge_batch_counterexample:
  "sizes huge_input = [2147483648, 1] \<and> dtype huge_input = kFloat16 \<and>
   is_cuda huge_input \<and> is_contiguous huge_input \<and>
   sizes huge_weight = [8, 1 div (8 div 8)] \<and> dtype huge_weight = kInt8 \<and>
   is_cuda huge_weight \<and> is_contiguous huge_weight \<and> (8::nat) mod 8 = 0 \<and>
   sizes decode_scales = [8] \<and> dtype decode_scales = kFloat16 \<and>
   is_cuda decode_scales \<and> is_contiguous decode_scales \<and> (1::nat) mod 1 = 0 \<and>
   quant_matmul huge_input huge_weight decode_scales None 8 huge_world
     = (Inl (TorchCheck ''input must have shape (m, k)''), huge_world)"
  by (simp add: operation_defs example_defs huge_input_def huge_weight_def huge_world_def)

text \<open>
  Claim C4, amended. For every input that satisfies the preconditions of the
  validator (\<open>bits\<close> 4 or 8; a contiguous fp16 activation of shape \<open>(M, K)\<close> on a
  GPU; a contiguous int8 weight of shape \<open>(N, K / (8 / bits))\<close> on a GPU with
  \<open>N\<close> a multiple of 8; contiguous fp16 scales on a GPU of shape \<open>(N)\<close>, or of shape
  \<open>(K / G, N)\<close> with \<open>G\<close> 64 or 128 dividing \<open>K\<close>; and no bias or a contiguous
  fp16 bias of shape \<open>(N)\<close> on a GPU), and whose \<open>M\<close>, \<open>N\<close> and \<open>K\<close> are below
  \<open>2 ^ 31\<close> with \<open>K\<close> positive, \<open>quant_matmul\<close> succeeds and returns a tensor of
  shape \<open>(M, N)\<close>. Memory exhaustion and failures inside the kernels are outside
  the model.
\<close>

theorem quant_matmul_succeeds:
  assumes bits: "bits = 4 \<or> bits = 8"
    and input: "sizes input = [M, K]" "dtype input = kFloat16" "is_cuda input"
      "is_contiguous input"
    and weight: "sizes weight = [N, K div nat (8 div bits)]" "dtype weight = kInt8"
      "is_cuda weight" "is_contiguous weight" "N mod 8 = 0"
    and scales: "dtype weight_scales = kFloat16" "is_cuda weight_scales"
      "is_contiguous weight_scales"
      "sizes weight_scales = [N] \<or>
       (\<exists>G. (G = 64 \<or> G = 128) \<and> K mod G = 0 \<and> sizes weight_scales = [K div G, N])"
    and bias: "case bias_opt of None \<Rightarrow> True
               | Some b \<Rightarrow> dtype b = kFloat16 \<and> is_cuda b \<and> is_contiguous b \<and> sizes b = [N]"
    and range: "M < 2 ^ 31" "N < 2 ^ 31" "K < 2 ^ 31" "0 < K"
  shows "\<exists>out w'. quant_matmul input weight weight_scales bias_opt bits w = (Inr out, w') \<and>
           sizes out = [M, N]"
proof -
  have "\<exists>fg g. quant_matmul_checks input weight weight_scales bias_opt bits =
          Inr (int M, int N, int K, fg, g)"
  proof (rule disjE [OF scales(4)])
    assume s: "sizes weight_scales = [N]"
    show ?thesis
      by (intro exI)
         (rule quant_matmul_checks_per_channel [OF bits input weight scales(1-3) s bias range])
  next
    assume "\<exists>G. (G = 64 \<or> G = 128) \<and> K mod G = 0 \<and> sizes weight_scales = [K div G, N]"
    then obtain G where G: "G = 64 \<or> G = 128" "K mod G = 0"
      and s: "sizes weight_scales = [K div G, N]"
      by (elim exE conjE)
    show ?thesis
      by (intro exI)
         (rule quant_matmul_checks_group_wise [OF bits input weight scales(1-3) s G bias range])
  qed
  then obtain fg g where chk: "quant_matmul_checks input weight weight_scales bias_opt bits =
          Inr (int M, int N, int K, fg, g)"
    by (elim exE)
  have "0 \<le> int M" "0 \<le> int N"
    by simp_all
  from quant_matmul_launch_Inr [OF this, of input weight weight_scales bias_opt bits
      "int K" fg g w]
  obtain out w' where
    run: "quant_matmul_launch input weight weight_scales bias_opt bits (int M) (int N) (int K)
       fg g w = (Inr out, w')" and out: "sizes out = [nat (int M), nat (int N)]"
    by (elim exE conjE)
  have "quant_matmul input weight weight_scales bias_opt bits w = (Inr out, w')"
    unfolding quant_matmul_def chk using run by simp
  moreover from out have "sizes out = [M, N]"
    by simp
  ultimately show ?thesis
    by (intro exI conjI)
qed

text \<open>The larger-batch call: group-wise scales with groups of 128, and a bias.\<close>

theorem quant_matmul_succeeds_witness:
  "\<exists>out w'. quant_matmul prefill_input prefill_weight prefill_scales (Some prefill_bias) 8
       prefill_world = (Inr out, w') \<and> sizes out = [32, 16]"
proof -
  have scales: "sizes prefill_scales = [16] \<or>
      (\<exists>G. (G = 64 \<or> G = 128) \<and> 256 mod G = 0 \<and> sizes prefill_scales = [256 div G, 16])"
    by (rule disjI2, rule exI [of _ 128]) (simp add: example_defs)
  have bias: "case Some prefill_bias of None \<Rightarrow> True
      | Some b \<Rightarrow> dtype b = kFloat16 \<and> is_cuda b \<and> is_contiguous b \<and> sizes b = [16]"
    by (simp add: example_defs is_cuda_def)
  show ?thesis
    by (rule quant_matmul_succeeds [where bits = 8 and M = 32 and K = 256 and N = 16,
          OF _ _ _ _ _ _ _ _ _ _ _ _ _ scales bias])
       (simp_all add: example_defs is_cuda_def)
qed

subsection \<open>Quantization scheme and group size\<close>

text \<open>What a successful call hands to the kernel, by the rank of the scales.\<close>

lemma scheme_of_successful_call:
  assumes ok: "quant_matmul input weight weight_scales bias_opt bits w = (Inr out, w')"
  shows "\<exists>l. launched w' = launched w @ [(char_cast (get_device input), l)] \<and>
           (dim weight_scales = 1 \<or> dim weight_scales = 2) \<and>
           (dim weight_scales = 1 \<longrightarrow>
              launch_scheme l = PerChannel \<and>
              launch_group_size l = int (sizes input ! 1)) \<and>
           (dim weight_scales = 2 \<longrightarrow>
              launch_scheme l = GroupWise \<and>
              launch_group_size l = int (sizes input ! 1 div sizes weight_scales ! 0) \<and>
              (launch_group_size l = 64 \<or> launch_group_size l = 128) \<and>
              sizes input ! 1 mod nat (launch_group_size l) = 0)"
proof -
  from ok obtain m n k fg g where
    chk: "quant_matmul_checks input weight weight_scales bias_opt bits = Inr (m, n, k, fg, g)"
    and run: "quant_matmul_launch input weight weight_scales bias_opt bits m n k fg g w
                = (Inr out, w')"
    by (rule quant_matmul_Inr_checks)
  note f = quant_matmul_checks_Inr [OF chk]
  note nonneg = has_shape_2_nonneg(1) [OF f(7)] has_shape_2_nonneg(1) [OF f(8)]
  note k = has_shape_2_nth(2) [OF f(7)]
  from quant_matmul_launch_scheme [OF nonneg, of input weight weight_scales bias_opt bits
      k fg g w]
  obtain out2 w2 l where
    "quant_matmul_launch input weight weight_scales bias_opt bits m n k fg g w = (Inr out2, w2)"
    and l0: "launched w2 = launched w @ [(char_cast (get_device input), l)]"
    and l: "launch_group_size l = g" "launch_scheme l = (if fg then GroupWise else PerChannel)"
    by (elim exE conjE)
  with run have "w2 = w'"
    by simp
  with l0 have l1: "launched w' = launched w @ [(char_cast (get_device input), l)]"
    by simp
  have rank: "dim weight_scales = 1 \<or> dim weight_scales = 2"
    using f(9) has_shape_dim [OF f(24)] by (cases fg) simp_all
  have pc: "launch_scheme l = PerChannel \<and> launch_group_size l = int (sizes input ! 1)"
    if "dim weight_scales = 1"
    using that f(9,10) l k by simp
  have gw: "launch_scheme l = GroupWise \<and>
      launch_group_size l = int (sizes input ! 1 div sizes weight_scales ! 0) \<and>
      (launch_group_size l = 64 \<or> launch_group_size l = 128) \<and>
      sizes input ! 1 mod nat (launch_group_size l) = 0"
    if two: "dim weight_scales = 2"
  proof -
    define K where "K = sizes input ! 1"
    define S where "S = sizes weight_scales ! 0"
    from two f(9) have fg: fg by simp
    have kK: "k = int K"
      using k by (simp add: K_def)
    from f(5) have "int32 (int K) = int K"
      using kK by (simp add: K_def)
    then have "K < 2 ^ 31"
      by (simp add: int32_eq_self_iff)
    then have "K div S < 2 ^ 31"
      by (rule le_less_trans [OF div_le_dividend])
    then have "int32 (int (K div S)) = int (K div S)"
      by (rule int32_of_nat)
    moreover from f(10) fg have "g = int32 (k sdiv int S)"
      by (simp add: S_def)
    ultimately have g: "g = int (K div S)"
      by (simp add: kK sdiv_of_nat)
    from f(13) [OF fg] have g64: "g = 64 \<or> g = 128" .
    then have "int (nat g) = g"
      by auto
    with smod_of_nat [of K "nat g"] f(12) have "int (K mod nat g) = 0"
      by (simp add: kK)
    then have "K mod nat g = 0"
      by simp
    with fg g g64 l show ?thesis
      by (simp add: K_def S_def)
  qed
  show ?thesis
    by (rule exI [of _ l]) (use l1 rank pc gw in blast)
qed

text \<open>A quotient of 96 never passes lines 112-113.\<close>

lemma group_size_96_rejected:
  assumes fg: "dim weight_scales = 2" and i: "1 < dim input"
    and q: "int32 (int (sizes input ! 1)) sdiv int (sizes weight_scales ! 0) = 96"
  shows "\<exists>e. quant_matmul_checks input weight weight_scales bias_opt bits = Inl e \<and>
           ((bits = 4 \<or> bits = 8) \<and> 0 < dim weight \<longrightarrow>
              e = TorchCheck ''k % group_size == 0'' \<or>
              e = TorchCheck ''group_size == 64 || group_size == 128'')"
proof -
  let ?k = "int32 (int (sizes input ! Suc 0))"
  define s where "s = int (sizes weight_scales ! 0)"
  have "s \<noteq> 0"
    using q by (cases "sizes weight_scales ! 0 = 0") (simp_all add: s_def)
  moreover have "?k \<noteq> - (2 ^ 63)"
    using int32_range(1) [of "int (sizes input ! Suc 0)"] by simp
  ultimately have d: "int64_div ?k s = Inr 96"
    using q by (simp add: int64_div_def s_def)
  have g: "int32 96 = 96"
    by (simp add: int32_eq_self_iff)
  have r: "int_mod ?k 96 = Inr (?k smod 96)"
    by (simp add: int_mod_def)
  have dims: "size_dim input 0 = Inr (int (sizes input ! 0))"
    "size_dim input (Suc 0) = Inr (int (sizes input ! Suc 0))"
    "size_dim weight_scales 0 = Inr s"
    using i fg by (auto simp: size_dim_def dim_def s_def)
  show ?thesis
  proof (cases "(bits = 4 \<or> bits = 8) \<and> 0 < dim weight")
    case False
    then show ?thesis
      unfolding quant_matmul_checks_def Let_def
      by (auto simp: dims and_then_def TORCH_CHECK_def size_dim_def [of weight])
  next
    case True
    then have w: "size_dim weight 0 = Inr (int (sizes weight ! 0))"
      by (simp add: size_dim_def)
    show ?thesis
      unfolding quant_matmul_checks_def Let_def
      using True
      by (cases "?k smod 96 = 0")
         (simp_all add: dims w fg d g r and_then_Inr and_then_Inl TORCH_CHECK_def)
  qed
qed

text \<open>
  A well-formed call with scales of rank 1 succeeds and launches its kernel with the
  per-channel scheme and group size \<open>k\<close>; with scales of rank 2 and groups of \<open>G\<close> it
  succeeds and launches with the group-wise scheme and group size \<open>G\<close>.
\<close>

lemma launch_of_checked_call:
  assumes chk: "quant_matmul_checks input weight weight_scales bias_opt bits =
          Inr (int M, int N, int K, fg, g)"
  shows "\<exists>out w' l. quant_matmul input weight weight_scales bias_opt bits w = (Inr out, w') \<and>
           launched w' = launched w @ [(char_cast (get_device input), l)] \<and>
           launch_scheme l = (if fg then GroupWise else PerChannel) \<and>
           launch_group_size l = g"
proof -
  have "0 \<le> int M" "0 \<le> int N"
    by simp_all
  from quant_matmul_launch_scheme [OF this, of input weight weight_scales bias_opt bits
      "int K" fg g w]
  obtain out w' l where
    run: "quant_matmul_launch input weight weight_scales bias_opt bits (int M) (int N) (int K)
       fg g w = (Inr out, w')"
    and l: "launched w' = launched w @ [(char_cast (get_device input), l)]"
      "launch_group_size l = g" "launch_scheme l = (if fg then GroupWise else PerChannel)"
    by (elim exE conjE)
  have "quant_matmul input weight weight_scales bias_opt bits w = (Inr out, w')"
    unfolding quant_matmul_def chk using run by simp
  with l show ?thesis
    by (intro exI conjI)
qed

lemma per_channel_call:
  assumes h: "(bits = 4 \<or> bits = 8) \<and>
     sizes input = [M, K] \<and> dtype input = kFloat16 \<and> is_cuda input \<and> is_contiguous input \<and>
     sizes weight = [N, K div nat (8 div bits)] \<and> dtype weight = kInt8 \<and> is_cuda weight \<and>
     is_contiguous weight \<and> N mod 8 = 0 \<and>
     dtype weight_scales = kFloat16 \<and> is_cuda weight_scales \<and>
     is_contiguous weight_scales \<and> sizes weight_scales = [N] \<and>
     (case bias_opt of None \<Rightarrow> True
      | Some b \<Rightarrow> dtype b = kFloat16 \<and> is_cuda b \<and> is_contiguous b \<and> sizes b = [N]) \<and>
     M < 2 ^ 31 \<and> N < 2 ^ 31 \<and> K < 2 ^ 31 \<and> 0 < K"
  shows "\<exists>out w' l. quant_matmul input weight weight_scales bias_opt bits w = (Inr out, w') \<and>
           launched w' = launched w @ [(char_cast (get_device input), l)] \<and>
           launch_scheme l = PerChannel \<and>
           launch_group_size l = int K"
proof -
  have "quant_matmul_checks input weight weight_scales bias_opt bits =
          Inr (int M, int N, int K, False, int K)"
    by (rule quant_matmul_checks_per_channel) (use h in blast)+
  from launch_of_checked_call [OF this, of w] show ?thesis
    by simp
qed

lemma group_wise_call:
  assumes h: "(bits = 4 \<or> bits = 8) \<and>
     sizes input = [M, K] \<and> dtype input = kFloat16 \<and> is_cuda input \<and> is_contiguous input \<and>
     sizes weight = [N, K div nat (8 div bits)] \<and> dtype weight = kInt8 \<and> is_cuda weight \<and>
     is_contiguous weight \<and> N mod 8 = 0 \<and>
     dtype weight_scales = kFloat16 \<and> is_cuda weight_scales \<and>
     is_contiguous weight_scales \<and> sizes weight_scales = [K div G, N] \<and>
     (G = 64 \<or> G = 128) \<and> K mod G = 0 \<and>
     (case bias_opt of None \<Rightarrow> True
      | Some b \<Rightarrow> dtype b = kFloat16 \<and> is_cuda b \<and> is_contiguous b \<and> sizes b = [N]) \<and>
     M < 2 ^ 31 \<and> N < 2 ^ 31 \<and> K < 2 ^ 31 \<and> 0 < K"
  shows "\<exists>out w' l. quant_matmul input weight weight_scales bias_opt bits w = (Inr out, w') \<and>
           launched w' = launched w @ [(char_cast (get_device input), l)] \<and>
           launch_scheme l = GroupWise \<and>
           launch_group_size l = int G"
proof -
  have "quant_matmul_checks input weight weight_scales bias_opt bits =
          Inr (int M, int N, int K, True, int G)"
    by (rule quant_matmul_checks_group_wise) (use h in blast)+
  from launch_of_checked_call [OF this, of w] show ?thesis
    by simp
qed

text \<open>
  Claim C2. \<open>quant_matmul\<close> takes the quantization scheme from the rank of the scale
  tensor. In a call that succeeds the rank is 1 or 2. With rank 1 the kernel is
  launched with the per-channel scheme and group size \<open>k\<close>; with rank 2 it is launched
  with the group-wise scheme and group size \<open>k / weight_scales.shape[0]\<close>, which is
  then 64 or 128 and divides \<open>k\<close>. A call with scales of rank 2 and
  \<open>k / weight_scales.shape[0] = 96\<close> fails, leaving the world unchanged; when it gets
  as far as the scheme (valid \<open>bits\<close>, a weight with a first dimension) it fails at
  the check of line 112 or of line 113, the spec's QuantSchemeError. Both schemes are
  reached: a well-formed call whose scales have shape \<open>(N)\<close> succeeds and launches
  its kernel with the per-channel scheme and group size \<open>K\<close>, and a well-formed call
  whose scales have shape \<open>(K / G, N)\<close>, with \<open>G\<close> 64 or 128 dividing \<open>K\<close>,
  succeeds and launches with the group-wise scheme and group size \<open>G\<close>
  (well-formed as in claim C4: dimensions below \<open>2 ^ 31\<close>, \<open>K\<close> positive).
\<close>

theorem quant_scheme_resolution:
  "(quant_matmul input weight weight_scales bias_opt bits w = (Inr out, w') \<longrightarrow>
      (\<exists>l. launched w' = launched w @ [(char_cast (get_device input), l)] \<and>
           (dim weight_scales = 1 \<or> dim weight_scales = 2) \<and>
           (dim weight_scales = 1 \<longrightarrow>
              launch_scheme l = PerChannel \<and>
              launch_group_size l = int (sizes input ! 1)) \<and>
           (dim weight_scales = 2 \<longrightarrow>
              launch_scheme l = GroupWise \<and>
              launch_group_size l = int (sizes input ! 1 div sizes weight_scales ! 0) \<and>
              (launch_group_size l = 64 \<or> launch_group_size l = 128) \<and>
              sizes input ! 1 mod nat (launch_group_size l) = 0))) \<and>
   (dim scales2 = 2 \<and> 1 < dim input2 \<and>
    int32 (int (sizes input2 ! 1)) sdiv int (sizes scales2 ! 0) = 96 \<longrightarrow>
      (\<exists>e. quant_matmul input2 weight2 scales2 bias2 bits2 w2 = (Inl e, w2) \<and>
           ((bits2 = 4 \<or> bits2 = 8) \<and> 0 < dim weight2 \<longrightarrow>
              e = TorchCheck ''k % group_size == 0'' \<or>
              e = TorchCheck ''group_size == 64 || group_size == 128''))) \<and>
   ((bits3 = 4 \<or> bits3 = 8) \<and>
     sizes input3 = [M, K] \<and> dtype input3 = kFloat16 \<and> is_cuda input3 \<and>
     is_contiguous input3 \<and>
     sizes weight3 = [N, K div nat (8 div bits3)] \<and> dtype weight3 = kInt8 \<and>
     is_cuda weight3 \<and> is_contiguous weight3 \<and> N mod 8 = 0 \<and>
     dtype scales3 = kFloat16 \<and> is_cuda scales3 \<and>
     is_contiguous scales3 \<and> sizes scales3 = [N] \<and>
     (case bias3 of None \<Rightarrow> True
      | Some b \<Rightarrow> dtype b = kFloat16 \<and> is_cuda b \<and> is_contiguous b \<and> sizes b = [N]) \<and>
     M < 2 ^ 31 \<and> N < 2 ^ 31 \<and> K < 2 ^ 31 \<and> 0 < K \<longrightarrow>
      (\<exists>out w' l. quant_matmul input3 weight3 scales3 bias3 bits3 w3 = (Inr out, w') \<and>
           launched w' = launched w3 @ [(char_cast (get_device input3), l)] \<and>
           launch_scheme l = PerChannel \<and>
           launch_group_size l = int K)) \<and>
   ((bits4 = 4 \<or> bits4 = 8) \<and>
     sizes input4 = [M', K'] \<and> dtype input4 = kFloat16 \<and> is_cuda input4 \<and>
     is_contiguous input4 \<and>
     sizes weight4 = [N', K' div nat (8 div bits4)] \<and> dtype weight4 = kInt8 \<and>
     is_cuda weight4 \<and> is_contiguous weight4 \<and> N' mod 8 = 0 \<and>
     dtype scales4 = kFloat16 \<and> is_cuda scales4 \<and>
     is_contiguous scales4 \<and> sizes scales4 = [K' div G, N'] \<and>
     (G = 64 \<or> G = 128) \<and> K' mod G = 0 \<and>
     (case bias4 of None \<Rightarrow> True
      | Some b \<Rightarrow> dtype b = kFloat16 \<and> is_cuda b \<and> is_contiguous b \<and> sizes b = [N']) \<and>
     M' < 2 ^ 31 \<and> N' < 2 ^ 31 \<and> K' < 2 ^ 31 \<and> 0 < K' \<longrightarrow>
      (\<exists>out w' l. quant_matmul input4 weight4 scales4 bias4 bits4 w4 = (Inr out, w') \<and>
           launched w' = launched w4 @ [(char_cast (get_device input4), l)] \<and>
           launch_scheme l = GroupWise \<and>
           launch_group_size l = int G))"
proof (intro conjI)
  show "quant_matmul input weight weight_scales bias_opt bits w = (Inr out, w') \<longrightarrow>
      (\<exists>l. launched w' = launched w @ [(char_cast (get_device input), l)] \<and>
           (dim weight_scales = 1 \<or> dim weight_scales = 2) \<and>
           (dim weight_scales = 1 \<longrightarrow>
              launch_scheme l = PerChannel \<and>
              launch_group_size l = int (sizes input ! 1)) \<and>
           (dim weight_scales = 2 \<longrightarrow>
              launch_scheme l = GroupWise \<and>
              launch_group_size l = int (sizes input ! 1 div sizes weight_scales ! 0) \<and>
              (launch_group_size l = 64 \<or> launch_group_size l = 128) \<and>
              sizes input ! 1 mod nat (launch_group_size l) = 0))"
    by (rule impI) (rule scheme_of_successful_call)
next
  show "dim scales2 = 2 \<and> 1 < dim input2 \<and>
    int32 (int (sizes input2 ! 1)) sdiv int (sizes scales2 ! 0) = 96 \<longrightarrow>
      (\<exists>e. quant_matmul input2 weight2 scales2 bias2 bits2 w2 = (Inl e, w2) \<and>
           ((bits2 = 4 \<or> bits2 = 8) \<and> 0 < dim weight2 \<longrightarrow>
              e = TorchCheck ''k % group_size == 0'' \<or>
              e = TorchCheck ''group_size == 64 || group_size == 128''))"
  proof (rule impI)
    assume a: "dim scales2 = 2 \<and> 1 < dim input2 \<and>
      int32 (int (sizes input2 ! 1)) sdiv int (sizes scales2 ! 0) = 96"
    from a have a1: "dim scales2 = 2"
      by (rule conjunct1)
    from a have a2: "1 < dim input2"
      by (rule conjunct1 [OF conjunct2])
    from a have a3: "int32 (int (sizes input2 ! 1)) sdiv int (sizes scales2 ! 0) = 96"
      by (rule conjunct2 [OF conjunct2])
    from group_size_96_rejected [OF a1 a2 a3, of weight2 bias2 bits2]
    obtain e where e: "quant_matmul_checks input2 weight2 scales2 bias2 bits2 = Inl e"
      and kind: "(bits2 = 4 \<or> bits2 = 8) \<and> 0 < dim weight2 \<longrightarrow>
                e = TorchCheck ''k % group_size == 0'' \<or>
                e = TorchCheck ''group_size == 64 || group_size == 128''"
      by (elim exE conjE)
    from e have call: "quant_matmul input2 weight2 scales2 bias2 bits2 w2 = (Inl e, w2)"
      by (simp add: quant_matmul_def)
    show "\<exists>e. quant_matmul input2 weight2 scales2 bias2 bits2 w2 = (Inl e, w2) \<and>
           ((bits2 = 4 \<or> bits2 = 8) \<and> 0 < dim weight2 \<longrightarrow>
              e = TorchCheck ''k % group_size == 0'' \<or>
              e = TorchCheck ''group_size == 64 || group_size == 128'')"
      by (rule exI [of _ e]) (rule conjI [OF call kind])
  qed
next
  show "(bits3 = 4 \<or> bits3 = 8) \<and>
     sizes input3 = [M, K] \<and> dtype input3 = kFloat16 \<and> is_cuda input3 \<and>
     is_contiguous input3 \<and>
     sizes weight3 = [N, K div nat (8 div bits3)] \<and> dtype weight3 = kInt8 \<and>
     is_cuda weight3 \<and> is_contiguous weight3 \<and> N mod 8 = 0 \<and>
     dtype scales3 = kFloat16 \<and> is_cuda scales3 \<and>
     is_contiguous scales3 \<and> sizes scales3 = [N] \<and>
     (case bias3 of None \<Rightarrow> True
      | Some b \<Rightarrow> dtype b = kFloat16 \<and> is_cuda b \<and> is_contiguous b \<and> sizes b = [N]) \<and>
     M < 2 ^ 31 \<and> N < 2 ^ 31 \<and> K < 2 ^ 31 \<and> 0 < K \<longrightarrow>
      (\<exists>out w' l. quant_matmul input3 weight3 scales3 bias3 bits3 w3 = (Inr out, w') \<and>
           launched w' = launched w3 @ [(char_cast (get_device input3), l)] \<and>
           launch_scheme l = PerChannel \<and>
           launch_group_size l = int K)"
    by (rule impI) (rule per_channel_call)
next
  show "(bits4 = 4 \<or> bits4 = 8) \<and>
     sizes input4 = [M', K'] \<and> dtype input4 = kFloat16 \<and> is_cuda input4 \<and>
     is_contiguous input4 \<and>
     sizes weight4 = [N', K' div nat (8 div bits4)] \<and> dtype weight4 = kInt8 \<and>
     is_cuda weight4 \<and> is_contiguous weight4 \<and> N' mod 8 = 0 \<and>
     dtype scales4 = kFloat16 \<and> is_cuda scales4 \<and>
     is_contiguous scales4 \<and> sizes scales4 = [K' div G, N'] \<and>
     (G = 64 \<or> G = 128) \<and> K' mod G = 0 \<and>
     (case bias4 of None \<Rightarrow> True
      | Some b \<Rightarrow> dtype b = kFloat16 \<and> is_cuda b \<and> is_contiguous b \<and> sizes b = [N']) \<and>
     M' < 2 ^ 31 \<and> N' < 2 ^ 31 \<and> K' < 2 ^ 31 \<and> 0 < K' \<longrightarrow>
      (\<exists>out w' l. quant_matmul input4 weight4 scales4 bias4 bits4 w4 = (Inr out, w') \<and>
           launched w' = launched w4 @ [(char_cast (get_device input4), l)] \<and>
           launch_scheme l = GroupWise \<and>
           launch_group_size l = int G)"
    by (rule impI) (rule group_wise_call)
qed

text \<open>
  The decode-style call has scales of rank 1 and is launched per-channel with group
  size \<open>k = 128\<close>; the larger-batch call has scales of rank 2 and is launched with
  groups of \<open>256 / 2 = 128\<close>; the call with \<open>k = 192\<close> and two rows of scales is
  rejected at line 113.
\<close>

theorem quant_scheme_resolution_witness:
  "map (\<lambda>(d, l). (launch_scheme l, launch_group_size l))
     (launched (snd (quant_matmul decode_input decode_weight decode_scales None 4
        decode_world))) = [(PerChannel, 128)] \<and>
   map (\<lambda>(d, l). (launch_scheme l, launch_group_size l))
     (launched (snd (quant_matmul prefill_input prefill_weight prefill_scales
        (Some prefill_bias) 8 prefill_world))) = [(GroupWise, 128)] \<and>
   quant_matmul g96_input g96_weight g96_scales None 4 g96_world
     = (Inl (TorchCheck ''group_size == 64 || group_size == 128''), g96_world)"
proof -
  have d: "((4::int) = 4 \<or> (4::int) = 8) \<and>
     sizes decode_input = [1, 128] \<and> dtype decode_input = kFloat16 \<and> is_cuda decode_input \<and>
     is_contiguous decode_input \<and>
     sizes decode_weight = [8, 128 div nat (8 div 4)] \<and> dtype decode_weight = kInt8 \<and>
     is_cuda decode_weight \<and> is_contiguous decode_weight \<and> (8::nat) mod 8 = 0 \<and>
     dtype decode_scales = kFloat16 \<and> is_cuda decode_scales \<and>
     is_contiguous decode_scales \<and> sizes decode_scales = [8] \<and>
     (case None of None \<Rightarrow> True
      | Some b \<Rightarrow> dtype b = kFloat16 \<and> is_cuda b \<and> is_contiguous b \<and> sizes b = [8]) \<and>
     (1::nat) < 2 ^ 31 \<and> (8::nat) < 2 ^ 31 \<and> (128::nat) < 2 ^ 31 \<and> (0::nat) < 128"
    by (simp add: example_defs is_cuda_def)
  from quant_scheme_resolution [THEN conjunct2, THEN conjunct2, THEN conjunct1, THEN mp,
      OF d, of decode_world]
  obtain dout dw dl where
    "quant_matmul decode_input decode_weight decode_scales None 4 decode_world = (Inr dout, dw)"
    and "launched dw = launched decode_world @ [(char_cast (get_device decode_input), dl)]"
    and "launch_scheme dl = PerChannel" and "launch_group_size dl = int 128"
    by (elim exE conjE)
  moreover have "launched decode_world = []"
    by (simp add: example_defs)
  ultimately have rank1: "map (\<lambda>(d, l). (launch_scheme l, launch_group_size l))
     (launched (snd (quant_matmul decode_input decode_weight decode_scales None 4
        decode_world))) = [(PerChannel, 128)]"
    by simp
  have fp: "fst (quant_matmul prefill_input prefill_weight prefill_scales (Some prefill_bias) 8
        prefill_world) = Inr (contiguous_tensor [32, 16] kFloat16 (CUDA 0) 4)"
    by (simp add: operation_defs example_defs)
  then have p: "quant_matmul prefill_input prefill_weight prefill_scales (Some prefill_bias) 8
        prefill_world
      = (Inr (contiguous_tensor [32, 16] kFloat16 (CUDA 0) 4),
         snd (quant_matmul prefill_input prefill_weight prefill_scales (Some prefill_bias) 8
           prefill_world))"
    by (simp add: prod_eq_iff)
  have r: "dim prefill_scales = 2" "launched prefill_world = []"
    "sizes prefill_input ! 1 div sizes prefill_scales ! 0 = 128"
    by (simp_all add: example_defs dim_def)
  have e: "quant_matmul g96_input g96_weight g96_scales None 4 g96_world
     = (Inl (TorchCheck ''group_size == 64 || group_size == 128''), g96_world)"
    by (simp add: operation_defs example_defs g96_input_def g96_weight_def g96_scales_def
        g96_world_def)
  from quant_scheme_resolution [THEN conjunct1, THEN mp, OF p]
  obtain l where "launched (snd (quant_matmul prefill_input prefill_weight prefill_scales
        (Some prefill_bias) 8 prefill_world))
        = launched prefill_world @ [(char_cast (get_device prefill_input), l)]"
    and "dim prefill_scales = 2 \<longrightarrow>
              launch_scheme l = GroupWise \<and>
              launch_group_size l
                = int (sizes prefill_input ! 1 div sizes prefill_scales ! 0) \<and>
              (launch_group_size l = 64 \<or> launch_group_size l = 128) \<and>
              sizes prefill_input ! 1 mod nat (launch_group_size l) = 0"
    by (elim exE conjE)
  with r have rank2: "map (\<lambda>(d, l). (launch_scheme l, launch_group_size l))
     (launched (snd (quant_matmul prefill_input prefill_weight prefill_scales
        (Some prefill_bias) 8 prefill_world))) = [(GroupWise, 128)]"
    by simp
  from rank1 rank2 e show ?thesis
    by (intro conjI)
qed

subsection \<open>\<^verbatim>\<open>preprocess_weight\<close>: preconditions and shape\<close>

text \<open>What a passed validation of \<open>preprocess_weight\<close> says about the inputs.\<close>

lemma preprocess_weight_checks_Inr:
  assumes "preprocess_weight_checks qw bits arch = Inr (rows, cols, epb)"
  shows "bits = 4 \<or> bits = 8" and "70 \<le> arch" and "arch < 90"
    and "epb = 8 sdiv bits"
    and "1 < length (sizes qw)"
    and "rows = int32 (int (sizes qw ! 0))"
    and "cols = int32 (int (sizes qw ! 1) * epb)"
    and "dtype qw = kInt8" and "is_cpu qw" and "is_contiguous qw"
    and "has_shape qw [rows, cols sdiv epb]"
  using assms
  unfolding preprocess_weight_checks_def Let_def
  by (auto simp: Inr_iffs split: if_splits)

text \<open>
  The truncated product \<open>cols\<close> is the exact product once \<^verbatim>\<open>CHECK_SHAPE\<close> has
  passed: it is even when two values share a byte, and its half is the stored width.
\<close>

lemma logical_cols:
  assumes "epb = 1 \<or> epb = 2" and "cols = int32 (int c * epb)" and "cols sdiv epb = int c"
  shows "cols = int c * epb"
proof -
  from assms(1) show ?thesis
  proof
    assume "epb = 1"
    with assms show ?thesis by simp
  next
    assume e: "epb = 2"
    with assms(2) have ev: "even cols"
      by (simp add: even_int32)
    from assms(3) e have "cols sdiv 2 = int c" by simp
    with ev have "cols div 2 = int c"
      by (cases "0 \<le> cols") (auto simp: signed_divide_int_def sgn_if split: if_splits)
    with ev e show ?thesis by auto
  qed
qed

lemma preprocess_weight_Inr:
  assumes "preprocess_weight perm qw bits arch w = (Inr out, w')"
  obtains rows cols epb where
    "preprocess_weight_checks qw bits arch = Inr (rows, cols, epb)"
    "out = \<lparr>sizes = [nat cols, nat (rows sdiv epb)], dtype = dtype qw, device = device qw,
            is_contiguous = True, data_ptr = length (heap w)\<rparr>"
    "length (heap w') = length (heap w) + 1"
    "take (length (heap w)) (heap w') = heap w"
  using assms
  by (auto simp: preprocess_weight_def at_empty_def options_def Let_def
      preprocess_weights_for_mixed_gemm_def
      split: sum.splits if_splits prod.splits)

text \<open>
  Claim C5. Whenever \<open>preprocess_weight\<close> accepts its input, the input has two
  dimensions \<open>(rows, pcols)\<close>, and the result is a tensor on a newly allocated buffer,
  of shape \<open>(pcols * (8 / bits), rows / (8 / bits))\<close>: the transpose, with packing, of
  the input's logical shape. The call adds that one buffer to the heap and leaves
  every buffer that existed before it, the input's among them, as it was.
\<close>

theorem preprocess_weight_shape:
  assumes "preprocess_weight perm quantized_weight bits arch w = (Inr out, w')"
  shows "\<exists>rows pcols.
           sizes quantized_weight = [rows, pcols] \<and>
           sizes out = [pcols * nat (8 div bits), rows div nat (8 div bits)] \<and>
           data_ptr out = length (heap w) \<and>
           length (heap w') = length (heap w) + 1 \<and>
           take (length (heap w)) (heap w') = heap w"
proof -
  from assms obtain rows cols epb where
    chk: "preprocess_weight_checks quantized_weight bits arch = Inr (rows, cols, epb)"
    and out: "out = \<lparr>sizes = [nat cols, nat (rows sdiv epb)], dtype = dtype quantized_weight,
            device = device quantized_weight, is_contiguous = True, data_ptr = length (heap w)\<rparr>"
    and heap: "length (heap w') = length (heap w) + 1" "take (length (heap w)) (heap w') = heap w"
    by (rule preprocess_weight_Inr)
  note f = preprocess_weight_checks_Inr [OF chk]
  from f(1,4) have epb: "epb = 1 \<or> epb = 2" "epb = 8 div bits"
    by (auto simp: signed_divide_int_def)
  from f(11) obtain r c where s: "sizes quantized_weight = [r, c]"
    and r: "rows = int r" and c: "int c = cols sdiv epb"
    by (auto simp: has_shape_def)
  from logical_cols [OF epb(1) _ c [symmetric]] f(7) s have cols: "cols = int c * epb"
    by simp
  from epb(1) r have "nat (rows sdiv epb) = r div nat epb"
    by (auto simp: signed_divide_int_def sgn_if nat_div_distrib)
  moreover from epb(1) cols have "nat cols = c * nat epb"
    by (auto simp: nat_mult_distrib)
  ultimately show ?thesis
    using s out heap epb(2) by simp
qed

text \<open>
  The host matrix of shape \<open>(3, 5)\<close> with \<open>bits = 4\<close>: the result has shape
  \<open>(10, 1)\<close> on buffer 1, and buffer 0, the input's, is unchanged.
\<close>

theorem preprocess_weight_shape_witness:
  "sizes host_weight = [3, 5] \<and>
   fst (preprocess_weight (\<lambda>qtype shape bytes. rev bytes) host_weight 4 80 host_world)
     = Inr (contiguous_tensor [10, 1] kInt8 CPU 1) \<and>
   take 1 (heap (snd (preprocess_weight (\<lambda>qtype shape bytes. rev bytes) host_weight 4 80
     host_world))) = heap host_world"
proof -
  have f: "fst (preprocess_weight (\<lambda>qtype shape bytes. rev bytes) host_weight 4 80 host_world)
     = Inr (contiguous_tensor [10, 1] kInt8 CPU 1)"
    by (simp add: operation_defs example_defs)
  then have e: "preprocess_weight (\<lambda>qtype shape bytes. rev bytes) host_weight 4 80 host_world
     = (Inr (contiguous_tensor [10, 1] kInt8 CPU 1),
        snd (preprocess_weight (\<lambda>qtype shape bytes. rev bytes) host_weight 4 80 host_world))"
    by (simp add: prod_eq_iff)
  have h: "length (heap host_world) = 1" "sizes host_weight = [3, 5]"
    by (simp_all add: example_defs)
  from preprocess_weight_shape [OF e] f h show ?thesis
    by simp
qed

text \<open>
  Claim C7. \<open>preprocess_weight\<close> enforces its preconditions: unless \<open>bits\<close> is 4 or
  8, \<open>70 \<le> arch < 90\<close>, and the weight is a contiguous int8 matrix in host memory,
  the call fails, and it leaves the world unchanged. With valid \<open>bits\<close>, an \<open>arch\<close>
  outside the range fails at the check of line 83, the spec's UnsupportedArchError
  (the check of \<open>bits\<close> on line 82 comes first).
\<close>

theorem preprocess_weight_preconditions:
  "(\<not> ((bits = 4 \<or> bits = 8) \<and> 70 \<le> arch \<and> arch < 90 \<and> dim quantized_weight = 2 \<and>
        dtype quantized_weight = kInt8 \<and> is_cpu quantized_weight \<and>
        is_contiguous quantized_weight) \<longrightarrow>
      (\<exists>e. preprocess_weight perm quantized_weight bits arch w = (Inl e, w))) \<and>
   ((bits = 4 \<or> bits = 8) \<and> \<not> (70 \<le> arch \<and> arch < 90) \<longrightarrow>
      preprocess_weight perm quantized_weight bits arch w =
        (Inl (TorchCheck ''arch >= 70 && arch < 90''), w))"
proof (rule conjI; rule impI)
  assume bad: "\<not> ((bits = 4 \<or> bits = 8) \<and> 70 \<le> arch \<and> arch < 90 \<and>
        dim quantized_weight = 2 \<and>
        dtype quantized_weight = kInt8 \<and> is_cpu quantized_weight \<and>
        is_contiguous quantized_weight)"
  show "\<exists>e. preprocess_weight perm quantized_weight bits arch w = (Inl e, w)"
  proof (cases "preprocess_weight_checks quantized_weight bits arch")
    case (Inl e)
    then show ?thesis by (simp add: preprocess_weight_def)
  next
    case (Inr v)
    obtain rows cols epb where v: "v = (rows, cols, epb)"
      by (cases v) auto
    note f = preprocess_weight_checks_Inr [OF Inr [unfolded v]]
    from has_shape_dim [OF f(11)] have "dim quantized_weight = 2"
      by simp
    with f(1,2,3,8,9,10) bad show ?thesis
      by simp
  qed
next
  assume "(bits = 4 \<or> bits = 8) \<and> \<not> (70 \<le> arch \<and> arch < 90)"
  then have "preprocess_weight_checks quantized_weight bits arch =
      Inl (TorchCheck ''arch >= 70 && arch < 90'')"
    by (auto simp: preprocess_weight_checks_def TORCH_CHECK_def and_then_def)
  then show "preprocess_weight perm quantized_weight bits arch w =
        (Inl (TorchCheck ''arch >= 70 && arch < 90''), w)"
    by (simp add: preprocess_weight_def)
qed

text \<open>The host matrix with \<open>arch = 60\<close>.\<close>

theorem preprocess_weight_preconditions_witness:
  "preprocess_weight (\<lambda>qtype shape bytes. rev bytes) host_weight 4 60 host_world =
     (Inl (TorchCheck ''arch >= 70 && arch < 90''), host_world)"
  using preprocess_weight_preconditions
    [of 4 60 host_weight "\<lambda>qtype shape bytes. rev bytes" host_world]
  by simp

text \<open>
  Claim C10, as stated, fails: \<open>rows\<close> and \<open>cols\<close> are \<^verbatim>\<open>int\<close>s. A contiguous
  host int8 matrix of \<open>2 ^ 31 + 1\<close> rows, an odd number, and one byte per row does
  not pass validation with \<open>bits = 4\<close>: \<open>rows\<close> is read as \<open>- 2 ^ 31 + 1\<close> and
  \<^verbatim>\<open>CHECK_SHAPE\<close> rejects the tensor.
\<close>

theorem preprocess_weight_tall_counterexample:
  "sizes tall_weight = [2147483649, 1] \<and> odd (2147483649 :: nat) \<and>
   dtype tall_weight = kInt8 \<and> is_cpu tall_weight \<and> is_contiguous tall_weight \<and>
   preprocess_weight (\<lambda>qtype shape bytes. rev bytes) tall_weight 4 80 tall_world =
     (Inl (TorchCheck ''quantized_weight must have shape (rows, cols / elts_per_byte)''),
      tall_world)"
  by (simp add: operation_defs example_defs tall_weight_def tall_world_def)

text \<open>
  Claim C10, amended. \<open>preprocess_weight\<close> does not require the row count to be
  divisible by \<open>8 / bits\<close>: for \<open>bits = 4\<close> and a supported \<open>arch\<close>, every contiguous
  host int8 matrix with an odd number of rows, fewer than \<open>2 ^ 31\<close> rows and fewer
  than \<open>2 ^ 30\<close> bytes per row passes validation, and the second dimension of the
  result is the truncated quotient \<open>rows / 2\<close>.
\<close>

theorem preprocess_weight_odd_rows:
  assumes "sizes quantized_weight = [rows, pcols]" and "odd rows"
    and "dtype quantized_weight = kInt8" and "is_cpu quantized_weight"
    and "is_contiguous quantized_weight"
    and "70 \<le> arch" and "arch < 90"
    and "rows < 2 ^ 31" and "2 * pcols < 2 ^ 31"
  shows "\<exists>out w'. preprocess_weight perm quantized_weight 4 arch w = (Inr out, w') \<and>
           sizes out = [2 * pcols, rows div 2]"
proof -
  have c: "int32 (int pcols * 2) = int (2 * pcols)"
    using assms(9) int32_of_nat [of "2 * pcols"] by (simp add: mult.commute)
  have "preprocess_weight_checks quantized_weight 4 arch = Inr (int rows, int (2 * pcols), 2)"
    using assms c
    by (simp add: preprocess_weight_checks_def and_then_def TORCH_CHECK_def size_dim_def
        dim_def int64_mul_def int32_of_nat has_shape_def Let_def signed_divide_int_def sgn_if)
  moreover have "nat (2 * int pcols) = 2 * pcols"
    by (simp add: nat_mult_distrib)
  ultimately show ?thesis
    by (simp add: preprocess_weight_def at_empty_def options_def Let_def
        preprocess_weights_for_mixed_gemm_def signed_divide_int_def sgn_if nat_div_distrib)
qed

text \<open>Three rows of five bytes: the result has shape \<open>(10, 1)\<close>.\<close>

theorem preprocess_weight_odd_rows_witness:
  "\<exists>out w'. preprocess_weight (\<lambda>qtype shape bytes. rev bytes) host_weight 4 80 host_world
       = (Inr out, w') \<and> sizes out = [10, 1]"
proof -
  have "sizes host_weight = [3, 5]" "odd (3::nat)" "dtype host_weight = kInt8"
    "is_cpu host_weight" "is_contiguous host_weight" "(70::int) \<le> 80" "(80::int) < 90"
    "(3::nat) < 2 ^ 31" "2 * (5::nat) < 2 ^ 31"
    by (simp_all add: example_defs is_cpu_def)
  from preprocess_weight_odd_rows [OF this] show ?thesis
    by simp
qed

end
